theory Spec2Isabelle
  imports Main "HOL-Library.Word"
begin

section \<open>Shared data model\<close>

text \<open>
  Strings are JavaScript strings, byte arrays (\<open>Uint8Array\<close>, \<open>Buffer\<close>) are lists of
  8-bit words. An optional property (\<open>service?: ...\<close>) or a value that may be
  \<open>undefined\<close> is an \<open>option\<close>. A function that can throw returns \<open>error + 'a\<close>,
  with \<open>Inl\<close> carrying the exception. Only the class of an exception is kept, not its
  message (the messages interpolate the offending input).
\<close>

type_synonym byte = "8 word"
type_synonym DidUri = string

datatype error =
    UnsupportedKeyError string
  | DidError
  | PublicCredentialError
  | TypeError
  | ExternalError string

text \<open>
  \<open>ExternalError\<close> stands for whatever a helper outside the modelled units raises
  (the URI parser, the codecs of the Polkadot libraries, the chain connection);
  \<open>TypeError\<close> is the JavaScript run-time error of reading a property of \<open>undefined\<close>.
\<close>

datatype DidVariant = Light | Full

text \<open>
  A verification method. A \<open>NewVerificationMethod\<close> is the same object without its
  \<open>controller\<close>.
\<close>

record VerificationMethod =
  vm_id :: string
  vm_type :: string
  vm_controller :: "string option"
  publicKeyMultibase :: string

text \<open>
  A service endpoint. The deserializer of light DID details casts
  \<open>type ?? types\<close> to \<open>string[]\<close> without a check, so both lists can be missing at
  run time.
\<close>

record ServiceEndpoint =
  se_id :: string
  se_type :: "string list option"
  se_serviceEndpoint :: "string list option"

record DidDocument =
  doc_id :: DidUri
  authentication :: "string list option"
  keyAgreement :: "string list option"
  assertionMethod :: "string list option"
  capabilityDelegation :: "string list option"
  verificationMethod :: "VerificationMethod list option"
  service :: "ServiceEndpoint list option"

text \<open>The result of \<open>parse\<close> (\<open>Did2.utils\<close>).\<close>

record ParsedDid =
  p_did :: DidUri
  p_address :: string
  p_type :: DidVariant
  p_version :: nat
  p_fragment :: "string option"
  p_authKeyTypeEncoding :: "string option"
  p_encodedDetails :: "string option"

section \<open>Light DID codec (\<open>LightDidDetailsV2\<close>)\<close>

record CreateDocumentInput =
  in_authentication :: VerificationMethod
  in_keyAgreement :: "VerificationMethod option"
  in_service :: "ServiceEndpoint list option"

text \<open>
  One entry of the serialized service list: \<open>id\<close> and the rest of the endpoint, plus
  the legacy keys \<open>types\<close> and \<open>urls\<close> that older light DIDs carry.
\<close>

record SerializedService =
  ss_id :: string
  ss_type :: "string list option"
  ss_serviceEndpoint :: "string list option"
  ss_types :: "string list option"
  ss_urls :: "string list option"

text \<open>\<open>SerializableStructure\<close>: key \<open>e\<close> is the key agreement key, key \<open>s\<close> the services.\<close>

record SerializableStructure =
  ser_e :: "VerificationMethod option"
  ser_s :: "SerializedService list option"

text \<open>
  The helpers the codec imports and that are not part of the modelled units: the
  multikey and SS58 codecs, the URI parser, service validation, CBOR and base58. They
  are parameters of the model.
\<close>

record did_helpers =
  decodeMultikeyVerificationMethod :: "VerificationMethod \<Rightarrow> error + (string \<times> byte list)"
  encodeVerificationMethodToMultiKey ::
    "DidUri \<Rightarrow> string \<Rightarrow> string \<times> byte list \<Rightarrow> error + VerificationMethod"
  getAddressByVerificationMethod :: "VerificationMethod \<Rightarrow> error + string"
  decodeAddress :: "string \<Rightarrow> error + byte list"
  parse :: "string \<Rightarrow> error + ParsedDid"
  encryptionKeyTypes :: "string list"
  fragmentIdToChain :: "string \<Rightarrow> string"
  validateNewService :: "ServiceEndpoint \<Rightarrow> error + unit"
  cbor_encode :: "SerializableStructure \<Rightarrow> byte list"
  cbor_decode :: "byte list \<Rightarrow> error + SerializableStructure"
  base58Encode :: "byte list \<Rightarrow> string"
  base58Decode :: "string \<Rightarrow> error + byte list"

definition authenticationKeyId :: string where
  "authenticationKeyId = ''#authentication''"

definition encryptionKeyId :: string where
  "encryptionKeyId = ''#encryption''"

definition verificationKeyTypeToLightDidEncoding :: "string \<Rightarrow> string option" where
  "verificationKeyTypeToLightDidEncoding k =
     (if k = ''sr25519'' then Some ''00''
      else if k = ''ed25519'' then Some ''01''
      else None)"

definition lightDidEncodingToVerificationKeyType :: "string \<Rightarrow> string option" where
  "lightDidEncodingToVerificationKeyType c =
     (if c = ''00'' then Some ''sr25519''
      else if c = ''01'' then Some ''ed25519''
      else None)"

text \<open>\<open>services?.forEach(...)\<close>: the first endpoint that fails stops the loop.\<close>

fun validateServices :: "did_helpers \<Rightarrow> ServiceEndpoint list \<Rightarrow> error + unit" where
  "validateServices h [] = Inr ()"
| "validateServices h (s # ss) =
     (if se_id s = ''#authentication'' \<or> se_id s = ''#encryption'' then Inl DidError
      else (case validateNewService h s of
              Inl e \<Rightarrow> Inl e
            | Inr _ \<Rightarrow> validateServices h ss))"

definition validateCreateDocumentInput :: "did_helpers \<Rightarrow> CreateDocumentInput \<Rightarrow> error + unit" where
  "validateCreateDocumentInput h x =
     (case decodeMultikeyVerificationMethod h (in_authentication x) of
        Inl e \<Rightarrow> Inl e
      | Inr (authenticationKeyType, _) \<Rightarrow>
          (case verificationKeyTypeToLightDidEncoding authenticationKeyType of
             None \<Rightarrow> Inl (UnsupportedKeyError (vm_type (in_authentication x)))
           | Some _ \<Rightarrow>
               (case (case in_keyAgreement x of
                        None \<Rightarrow> Inr ()
                      | Some k \<Rightarrow>
                          (case decodeMultikeyVerificationMethod h k of
                             Inl e \<Rightarrow> Inl e
                           | Inr (keyAgreementKeyType, _) \<Rightarrow>
                               (if keyAgreementKeyType \<notin> set (encryptionKeyTypes h)
                                then Inl DidError else Inr ()))) of
                  Inl e \<Rightarrow> Inl e
                | Inr _ \<Rightarrow>
                    (case in_service x of
                       None \<Rightarrow> Inr ()
                     | Some services \<Rightarrow> validateServices h services))))"

definition serializeService :: "did_helpers \<Rightarrow> ServiceEndpoint \<Rightarrow> SerializedService" where
  "serializeService h s =
     \<lparr> ss_id = fragmentIdToChain h (se_id s),
       ss_type = se_type s,
       ss_serviceEndpoint = se_serviceEndpoint s,
       ss_types = None,
       ss_urls = None \<rparr>"

definition objectToSerialize ::
  "did_helpers \<Rightarrow> VerificationMethod option \<Rightarrow> ServiceEndpoint list option \<Rightarrow> SerializableStructure" where
  "objectToSerialize h ka svc =
     \<lparr> ser_e = ka,
       ser_s = (case svc of
                  None \<Rightarrow> None
                | Some ss \<Rightarrow> (if length ss > 0 then Some (map (serializeService h) ss) else None)) \<rparr>"

definition serializeAdditionalLightDidDetails ::
  "did_helpers \<Rightarrow> VerificationMethod option \<Rightarrow> ServiceEndpoint list option \<Rightarrow> string option" where
  "serializeAdditionalLightDidDetails h ka svc =
     (let obj = objectToSerialize h ka svc in
      (if ser_e obj = None \<and> ser_s obj = None then None
       else (let serializationVersion = (0 :: byte);
                 serialized = cbor_encode h obj
             in Some (base58Encode h (serializationVersion # serialized)))))"

definition deserializeService :: "SerializedService \<Rightarrow> ServiceEndpoint" where
  "deserializeService s =
     \<lparr> se_id = ''#'' @ ss_id s,
       se_type = (case ss_type s of Some t \<Rightarrow> Some t | None \<Rightarrow> ss_types s),
       se_serviceEndpoint =
         (case ss_serviceEndpoint s of Some u \<Rightarrow> Some u | None \<Rightarrow> ss_urls s) \<rparr>"

definition deserializeAdditionalLightDidDetails ::
  "did_helpers \<Rightarrow> string \<Rightarrow> nat \<Rightarrow>
     error + (VerificationMethod option \<times> ServiceEndpoint list option)" where
  "deserializeAdditionalLightDidDetails h rawInput version =
     (if version \<noteq> 1 then Inl DidError
      else (case base58Decode h rawInput of
        Inl e \<Rightarrow> Inl e
      | Inr decoded \<Rightarrow>
          (case decoded of
             [] \<Rightarrow> Inl DidError
           | serializationVersion # serialized \<Rightarrow>
               (if serializationVersion \<noteq> 0 then Inl DidError
                else (case cbor_decode h serialized of
                   Inl e \<Rightarrow> Inl e
                 | Inr deserialized \<Rightarrow>
                     Inr (ser_e deserialized,
                          map_option (map deserializeService) (ser_s deserialized)))))))"

text \<open>The URI of a light DID, as the template string of \<open>createLightDidDocument\<close> builds it.\<close>

definition lightDidUri :: "string option \<Rightarrow> string \<Rightarrow> string option \<Rightarrow> DidUri" where
  "lightDidUri authenticationKeyTypeEncoding address encodedDetails =
     (let encodedDetailsString =
            (case encodedDetails of
               None \<Rightarrow> []
             | Some d \<Rightarrow> (if d = [] then [] else '':'' @ d))
      in ''did:kilt:light:''
           @ (case authenticationKeyTypeEncoding of Some c \<Rightarrow> c | None \<Rightarrow> ''undefined'')
           @ address @ encodedDetailsString)"

text \<open>The second half of \<open>createLightDidDocument\<close>: the key agreement key, if any, is added.\<close>

definition addKeyAgreement ::
  "did_helpers \<Rightarrow> DidUri \<Rightarrow> VerificationMethod option \<Rightarrow> VerificationMethod \<Rightarrow> DidDocument
     \<Rightarrow> error + DidDocument" where
  "addKeyAgreement h uri ka authVm did =
     (case ka of
        None \<Rightarrow> Inr did
      | Some k \<Rightarrow>
          (case decodeMultikeyVerificationMethod h k of
             Inl e \<Rightarrow> Inl e
           | Inr keyAgreementKey \<Rightarrow>
               (case encodeVerificationMethodToMultiKey h uri encryptionKeyId keyAgreementKey of
                  Inl e \<Rightarrow> Inl e
                | Inr encVm \<Rightarrow>
                    Inr (did \<lparr> keyAgreement := Some [encryptionKeyId],
                               verificationMethod := Some [authVm, encVm] \<rparr>))))"

definition createLightDidDocument :: "did_helpers \<Rightarrow> CreateDocumentInput \<Rightarrow> error + DidDocument" where
  "createLightDidDocument h x =
     (case validateCreateDocumentInput h x of
        Inl e \<Rightarrow> Inl e
      | Inr _ \<Rightarrow>
         (let encodedDetails =
                serializeAdditionalLightDidDetails h (in_keyAgreement x) (in_service x)
          in
          (case decodeMultikeyVerificationMethod h (in_authentication x) of
             Inl e \<Rightarrow> Inl e
           | Inr authenticationKey \<Rightarrow>
              (case getAddressByVerificationMethod h (in_authentication x) of
                 Inl e \<Rightarrow> Inl e
               | Inr address \<Rightarrow>
                  (let uri = lightDidUri
                               (verificationKeyTypeToLightDidEncoding (fst authenticationKey))
                               address encodedDetails
                   in
                   (case encodeVerificationMethodToMultiKey h uri authenticationKeyId
                           authenticationKey of
                      Inl e \<Rightarrow> Inl e
                    | Inr authVm \<Rightarrow>
                        addKeyAgreement h uri (in_keyAgreement x) authVm
                          \<lparr> doc_id = uri,
                            authentication = Some [authenticationKeyId],
                            keyAgreement = None,
                            assertionMethod = None,
                            capabilityDelegation = None,
                            verificationMethod = Some [authVm],
                            service = in_service x \<rparr>))))))"

text \<open>
  JavaScript truthiness of an optional string: \<open>undefined\<close> and the empty string are
  falsy.
\<close>

definition truthy :: "string option \<Rightarrow> bool" where
  "truthy s = (case s of None \<Rightarrow> False | Some t \<Rightarrow> t \<noteq> [])"

text \<open>
  \<open>authKeyTypeEncoding && lightDidEncodingToVerificationKeyType[authKeyTypeEncoding]\<close>:
  a falsy left operand is the result (the empty string stays the empty string).
\<close>

definition keyTypeOfEncoding :: "string option \<Rightarrow> string option" where
  "keyTypeOfEncoding enc =
     (case enc of
        None \<Rightarrow> None
      | Some c \<Rightarrow> (if c = [] then Some [] else lightDidEncodingToVerificationKeyType c))"

definition parseDocumentFromLightDid :: "did_helpers \<Rightarrow> DidUri \<Rightarrow> bool \<Rightarrow> error + DidDocument" where
  "parseDocumentFromLightDid h uri failIfFragmentPresent =
     (case parse h uri of
        Inl e \<Rightarrow> Inl e
      | Inr p \<Rightarrow>
         (if p_type p \<noteq> Light then Inl DidError
          else if truthy (p_fragment p) \<and> failIfFragmentPresent then Inl DidError
          else
           (case keyTypeOfEncoding (p_authKeyTypeEncoding p) of
              None \<Rightarrow> Inl DidError
            | Some keyType \<Rightarrow>
               (case decodeAddress h (p_address p) of
                  Inl e \<Rightarrow> Inl e
                | Inr publicKey \<Rightarrow>
                   (case encodeVerificationMethodToMultiKey h uri authenticationKeyId
                           (keyType, publicKey) of
                      Inl e \<Rightarrow> Inl e
                    | Inr auth \<Rightarrow>
                       (case (if truthy (p_encodedDetails p) then p_encodedDetails p else None) of
                          None \<Rightarrow>
                            createLightDidDocument h
                              \<lparr> in_authentication = auth, in_keyAgreement = None,
                                in_service = None \<rparr>
                        | Some encodedDetails \<Rightarrow>
                           (case deserializeAdditionalLightDidDetails h encodedDetails
                                   (p_version p) of
                              Inl e \<Rightarrow> Inl e
                            | Inr (ka, svc) \<Rightarrow>
                                createLightDidDocument h
                                  \<lparr> in_authentication = auth, in_keyAgreement = ka,
                                    in_service = svc \<rparr>)))))))"

section \<open>DID resolver (\<open>DidResolverV2\<close>)\<close>

definition DID_JSON :: string where
  "DID_JSON = ''application/did+json''"

definition DID_JSON_LD :: string where
  "DID_JSON_LD = ''application/did+ld+json''"

definition DID_CBOR :: string where
  "DID_CBOR = ''application/did+cbor''"

text \<open>
  The \<open>accept\<close> option of a caller is any value, or missing: \<open>None\<close> stands for
  \<open>undefined\<close> (an options object without \<open>accept\<close>), and a string for itself.
\<close>

definition isValidContentType :: "string option \<Rightarrow> bool" where
  "isValidContentType input \<longleftrightarrow>
     input = Some DID_JSON \<or> input = Some DID_JSON_LD \<or> input = Some DID_CBOR"

record ResolutionDocumentMetadata =
  deactivated :: "bool option"
  canonicalId :: "DidUri option"

definition emptyMetadata :: ResolutionDocumentMetadata where
  "emptyMetadata = \<lparr> deactivated = None, canonicalId = None \<rparr>"

record InternalResolutionResult =
  ir_document :: "DidDocument option"
  ir_documentMetadata :: ResolutionDocumentMetadata

record ResolutionResult =
  didResolutionMetadata_error :: "string option"
  didDocumentMetadata :: ResolutionDocumentMetadata
  didDocument :: "DidDocument option"

record RepresentationResolutionResult =
  rep_didResolutionMetadata_error :: "string option"
  rep_didDocumentMetadata :: ResolutionDocumentMetadata
  didDocumentStream :: "byte list option"

text \<open>What a DID URL can dereference to, and the three shapes of the returned stream.\<close>

datatype Resource =
    DocumentResource DidDocument
  | VerificationMethodResource VerificationMethod
  | ServiceResource ServiceEndpoint

datatype ContentStream =
    PlainStream Resource
  | JsonLdStream Resource "string list"
  | BufferStream "byte list"

record InternalDereferenceResult =
  id_contentStream :: "Resource option"
  id_contentMetadata :: ResolutionDocumentMetadata

record DereferenceResult =
  dereferencingMetadata_error :: "string option"
  dereferencingMetadata_contentType :: "string option"
  contentMetadata :: ResolutionDocumentMetadata
  contentStream :: "ContentStream option"

text \<open>
  Every request to the chain is recorded, in order, so that a statement can say that
  none was made. A function that awaits the chain returns its outcome and the requests
  it made.
\<close>

datatype chain_request = DidQuery string | DidBlacklistQuery string

type_synonym 'a chain_io = "(error + 'a) \<times> chain_request list"

text \<open>
  The resolver's environment: the codec helpers, the chain connection and the
  serializers. \<open>linkedInfo a\<close> is the promise
  \<open>api.call.did.query(a).then(linkedInfoFromChain)\<close>: it rejects (\<open>Inl\<close>) or yields the
  \<open>document\<close> of the linked info. \<open>didBlacklist a\<close> is
  \<open>(await api.query.did.didBlacklist(a)).isSome\<close>. \<open>jsonStringify r c\<close> is
  \<open>JSON.stringify\<close> of the resource \<open>r\<close>, with the property \<open>@context\<close> set to \<open>c\<close>
  when \<open>c\<close> is given.
\<close>

record resolver_env =
  helpers :: did_helpers
  toChain :: "DidUri \<Rightarrow> error + string"
  validateUri :: "string \<Rightarrow> string option \<Rightarrow> error + unit"
  getFullDidUri :: "DidUri \<Rightarrow> error + DidUri"
  linkedInfo :: "string \<Rightarrow> error + DidDocument option"
  didBlacklist :: "string \<Rightarrow> error + bool"
  W3C_DID_CONTEXT_URL :: string
  KILT_DID_CONTEXT_URL :: string
  jsonStringify :: "Resource \<Rightarrow> string list option \<Rightarrow> string"
  cborEncodeResource :: "Resource \<Rightarrow> byte list"
  bufferFromString :: "string \<Rightarrow> byte list"

definition idOnlyDocument :: "DidUri \<Rightarrow> DidDocument" where
  "idOnlyDocument did =
     \<lparr> doc_id = did, authentication = None, keyAgreement = None, assertionMethod = None,
       capabilityDelegation = None, verificationMethod = None, service = None \<rparr>"

text \<open>
  The part of \<open>resolveInternal\<close> for a light DID that is neither deleted nor answered as
  a full DID: the light document is rebuilt first, then the migration is looked at.
\<close>

definition resolveLight ::
  "resolver_env \<Rightarrow> DidUri \<Rightarrow> DidDocument option \<Rightarrow> error + InternalResolutionResult option" where
  "resolveLight env did document =
     (case parseDocumentFromLightDid (helpers env) did False of
        Inl e \<Rightarrow> Inl e
      | Inr lightDocument \<Rightarrow>
          (if document \<noteq> None then
             (case getFullDidUri env did of
                Inl e \<Rightarrow> Inl e
              | Inr full \<Rightarrow>
                  Inr (Some \<lparr> ir_document = Some (idOnlyDocument did),
                              ir_documentMetadata =
                                \<lparr> deactivated = None, canonicalId = Some full \<rparr> \<rparr>))
           else
             Inr (Some \<lparr> ir_document = Some lightDocument,
                         ir_documentMetadata = emptyMetadata \<rparr>)))"

text \<open>The part of \<open>resolveInternal\<close> from the query of the deleted-DID index on.\<close>

definition resolveAfterQuery ::
  "resolver_env \<Rightarrow> DidUri \<Rightarrow> DidVariant \<Rightarrow> DidDocument option \<Rightarrow> chain_request list
     \<Rightarrow> InternalResolutionResult option chain_io" where
  "resolveAfterQuery env did type document log =
     (case toChain env did of
        Inl e \<Rightarrow> (Inl e, log)
      | Inr a \<Rightarrow>
          (case didBlacklist env a of
             Inl e \<Rightarrow> (Inl e, log @ [DidBlacklistQuery a])
           | Inr isFullDidDeleted \<Rightarrow>
               (if isFullDidDeleted then
                  (Inr (Some \<lparr> ir_document = None,
                               ir_documentMetadata =
                                 \<lparr> deactivated = Some True, canonicalId = None \<rparr> \<rparr>),
                   log @ [DidBlacklistQuery a])
                else if type = Full then (Inr None, log @ [DidBlacklistQuery a])
                else (resolveLight env did document, log @ [DidBlacklistQuery a]))))"

definition resolveInternal ::
  "resolver_env \<Rightarrow> DidUri \<Rightarrow> InternalResolutionResult option chain_io" where
  "resolveInternal env did =
     (case parse (helpers env) did of
        Inl e \<Rightarrow> (Inl e, [])
      | Inr p \<Rightarrow>
          (case toChain env did of
             Inl e \<Rightarrow> (Inl e, [])
           | Inr a \<Rightarrow>
               (let document = (case linkedInfo env a of Inl _ \<Rightarrow> None | Inr d \<Rightarrow> d) in
                (if p_type p = Full \<and> document \<noteq> None then
                   (Inr (Some \<lparr> ir_document = document,
                                ir_documentMetadata = emptyMetadata \<rparr>),
                    [DidQuery a])
                 else resolveAfterQuery env did (p_type p) document [DidQuery a]))))"

definition resolve :: "resolver_env \<Rightarrow> DidUri \<Rightarrow> ResolutionResult chain_io" where
  "resolve env did =
     (case validateUri env did (Some ''Did'') of
        Inl _ \<Rightarrow>
          (Inr \<lparr> didResolutionMetadata_error = Some ''invalidDid'',
                 didDocumentMetadata = emptyMetadata,
                 didDocument = None \<rparr>, [])
      | Inr _ \<Rightarrow>
          (case resolveInternal env did of
             (Inl e, log) \<Rightarrow> (Inl e, log)
           | (Inr None, log) \<Rightarrow>
               (Inr \<lparr> didResolutionMetadata_error = Some ''notFound'',
                      didDocumentMetadata = emptyMetadata,
                      didDocument = None \<rparr>, log)
           | (Inr (Some resolutionResult), log) \<Rightarrow>
               (Inr \<lparr> didResolutionMetadata_error = None,
                      didDocumentMetadata = ir_documentMetadata resolutionResult,
                      didDocument = ir_document resolutionResult \<rparr>, log)))"

definition bufferInput :: "resolver_env \<Rightarrow> string option \<Rightarrow> DidDocument \<Rightarrow> byte list" where
  "bufferInput env accept doc =
     (if accept = Some ''application/did+json'' then
        bufferFromString env (jsonStringify env (DocumentResource doc) None)
      else if accept = Some ''application/did+ld+json'' then
        bufferFromString env
          (jsonStringify env (DocumentResource doc)
             (Some [W3C_DID_CONTEXT_URL env, KILT_DID_CONTEXT_URL env]))
      else cborEncodeResource env (DocumentResource doc))"

definition resolveRepresentation ::
  "resolver_env \<Rightarrow> DidUri \<Rightarrow> string option \<Rightarrow> RepresentationResolutionResult chain_io" where
  "resolveRepresentation env did accept =
     (if \<not> isValidContentType accept then
        (Inr \<lparr> rep_didResolutionMetadata_error = Some ''representationNotSupported'',
               rep_didDocumentMetadata = emptyMetadata,
               didDocumentStream = None \<rparr>, [])
      else
        (case resolve env did of
           (Inl e, log) \<Rightarrow> (Inl e, log)
         | (Inr r, log) \<Rightarrow>
             (case didDocument r of
                None \<Rightarrow>
                  (Inr \<lparr> rep_didResolutionMetadata_error = didResolutionMetadata_error r,
                         rep_didDocumentMetadata = didDocumentMetadata r,
                         didDocumentStream = None \<rparr>, log)
              | Some doc \<Rightarrow>
                  (Inr \<lparr> rep_didResolutionMetadata_error = didResolutionMetadata_error r,
                         rep_didDocumentMetadata = didDocumentMetadata r,
                         didDocumentStream = Some (bufferInput env accept doc) \<rparr>, log))))"

text \<open>
  \<open>didDocument?.verificationMethod.find(...)\<close>, then \<open>didDocument?.service?.find(...)\<close>: a
  document without the property \<open>verificationMethod\<close> makes \<open>.find\<close> read a property of
  \<open>undefined\<close>.
\<close>

definition dereferencedResource :: "DidDocument option \<Rightarrow> string \<Rightarrow> error + Resource option" where
  "dereferencedResource doc fragment =
     (case doc of
        None \<Rightarrow> Inr None
      | Some d \<Rightarrow>
          (case verificationMethod d of
             None \<Rightarrow> Inl TypeError
           | Some vms \<Rightarrow>
               (case find (\<lambda>m. vm_id m = fragment) vms of
                  Some m \<Rightarrow> Inr (Some (VerificationMethodResource m))
                | None \<Rightarrow>
                    (case service d of
                       None \<Rightarrow> Inr None
                     | Some ss \<Rightarrow>
                         Inr (map_option ServiceResource
                                (find (\<lambda>s. se_id s = fragment) ss))))))"

definition dereferenceInternal ::
  "resolver_env \<Rightarrow> string \<Rightarrow> string \<Rightarrow> InternalDereferenceResult chain_io" where
  "dereferenceInternal env didUrl accept =
     (case parse (helpers env) didUrl of
        Inl e \<Rightarrow> (Inl e, [])
      | Inr p \<Rightarrow>
          (case resolve env (p_did p) of
             (Inl e, log) \<Rightarrow> (Inl e, log)
           | (Inr r, log) \<Rightarrow>
               (case p_fragment p of
                  None \<Rightarrow>
                    (Inr \<lparr> id_contentStream = map_option DocumentResource (didDocument r),
                           id_contentMetadata = didDocumentMetadata r \<rparr>, log)
                | Some fragment \<Rightarrow>
                    (case dereferencedResource (didDocument r) fragment of
                       Inl e \<Rightarrow> (Inl e, log)
                     | Inr res \<Rightarrow>
                         (Inr \<lparr> id_contentStream = res,
                                id_contentMetadata = emptyMetadata \<rparr>, log)))))"

definition dereferenceStream :: "resolver_env \<Rightarrow> string \<Rightarrow> Resource \<Rightarrow> ContentStream" where
  "dereferenceStream env contentType res =
     (if contentType = ''application/did+json'' then PlainStream res
      else if contentType = ''application/did+ld+json'' then
        JsonLdStream res [W3C_DID_CONTEXT_URL env, KILT_DID_CONTEXT_URL env]
      else BufferStream (cborEncodeResource env res))"

definition dereference ::
  "resolver_env \<Rightarrow> string \<Rightarrow> string option \<Rightarrow> DereferenceResult chain_io" where
  "dereference env didUrl accept =
     (let contentType =
            (case accept of
               Some a \<Rightarrow> (if isValidContentType accept then a else DID_JSON)
             | None \<Rightarrow> DID_JSON) in
      (case validateUri env didUrl None of
         Inl _ \<Rightarrow>
           (Inr \<lparr> dereferencingMetadata_error = Some ''invalidDidUrl'',
                  dereferencingMetadata_contentType = None,
                  contentMetadata = emptyMetadata,
                  contentStream = None \<rparr>, [])
       | Inr _ \<Rightarrow>
           (case dereferenceInternal env didUrl contentType of
              (Inl e, log) \<Rightarrow> (Inl e, log)
            | (Inr resolutionResult, log) \<Rightarrow>
                (case id_contentStream resolutionResult of
                   None \<Rightarrow>
                     (Inr \<lparr> dereferencingMetadata_error = Some ''notFound'',
                            dereferencingMetadata_contentType = None,
                            contentMetadata = id_contentMetadata resolutionResult,
                            contentStream = None \<rparr>, log)
                 | Some res \<Rightarrow>
                     (Inr \<lparr> dereferencingMetadata_error = None,
                            dereferencingMetadata_contentType = Some contentType,
                            contentMetadata = id_contentMetadata resolutionResult,
                            contentStream = Some (dereferenceStream env contentType res) \<rparr>,
                      log)))))"

section \<open>Public credential reconstruction (\<open>PublicCredential.chain\<close>)\<close>

text \<open>
  The credential as the chain call carries it
  (\<open>PublicCredentialsCredentialsCredential\<close>): the subject as the UTF-8 text of its
  bytes, the claims as CBOR bytes, the hashes as their hex strings.
\<close>

record EncodedCredential =
  ec_ctypeHash :: string
  ec_subject :: string
  ec_claims :: "byte list"
  ec_authorization :: "string option"

text \<open>
  The calls the reconstruction tells apart: the three batch calls of the utility
  pallet, a DID-authorized call (the DID's account and the wrapped call), the addition
  of a public credential, and any other call.
\<close>

datatype Call =
    UtilityBatch "Call list"
  | UtilityBatchAll "Call list"
  | UtilityForceBatch "Call list"
  | DidSubmitDidCall string Call
  | PublicCredentialsAdd EncodedCredential
  | OtherCall string

datatype Event =
    CredentialStored string string
  | OtherEvent string

record TxWithEvent =
  tx_extrinsic :: Call
  tx_events :: "Event list"
  tx_dispatchError :: "string option"

record CredentialEntry =
  ce_blockNumber :: "64 word"
  ce_revoked :: bool

record 'c IPublicCredentialInput =
  claims :: 'c
  cTypeHash :: string
  delegationId :: "string option"
  subject :: string

record 'c IPublicCredential = "'c IPublicCredentialInput" +
  attester :: DidUri
  cred_id :: string
  blockNumber :: "64 word"
  revoked :: bool

text \<open>
  The helpers of the reconstruction that are not part of the modelled unit: the block
  query of the chain connection, the validation of an asset DID, the CBOR decoder,
  the DID of an account and the identifier of a credential. The type \<open>'c\<close> is the
  type of decoded claims.
\<close>

record 'c credential_helpers =
  getBlockByNumber :: "64 word \<Rightarrow> error + TxWithEvent list"
  validateAssetUri :: "string \<Rightarrow> error + unit"
  cborDecode :: "byte list \<Rightarrow> error + 'c"
  didFromChain :: "string \<Rightarrow> DidUri"
  getIdForCredential :: "'c IPublicCredentialInput \<Rightarrow> DidUri \<Rightarrow> string"

definition batchCalls :: "Call \<Rightarrow> Call list option" where
  "batchCalls call =
     (case call of
        UtilityBatch cs \<Rightarrow> Some cs
      | UtilityBatchAll cs \<Rightarrow> Some cs
      | UtilityForceBatch cs \<Rightarrow> Some cs
      | _ \<Rightarrow> None)"

fun flattenCalls :: "Call \<Rightarrow> Call list" where
  "flattenCalls (UtilityBatch cs) = concat (map flattenCalls cs)"
| "flattenCalls (UtilityBatchAll cs) = concat (map flattenCalls cs)"
| "flattenCalls (UtilityForceBatch cs) = concat (map flattenCalls cs)"
| "flattenCalls call = [call]"

text \<open>\<open>Array.prototype.map\<close> with a callback that can throw: the first failure ends it.\<close>

fun mapE :: "('a \<Rightarrow> error + 'b) \<Rightarrow> 'a list \<Rightarrow> error + 'b list" where
  "mapE f [] = Inr []"
| "mapE f (x # xs) =
     (case f x of
        Inl e \<Rightarrow> Inl e
      | Inr y \<Rightarrow> (case mapE f xs of Inl e \<Rightarrow> Inl e | Inr ys \<Rightarrow> Inr (y # ys)))"

definition credentialInputFromChain ::
  "'c credential_helpers \<Rightarrow> EncodedCredential \<Rightarrow> error + 'c IPublicCredentialInput" where
  "credentialInputFromChain h c =
     (let credentialSubject = ec_subject c in
      (case validateAssetUri h credentialSubject of
         Inl e \<Rightarrow> Inl e
       | Inr _ \<Rightarrow>
           (case cborDecode h (ec_claims c) of
              Inl e \<Rightarrow> Inl e
            | Inr decoded \<Rightarrow>
                Inr \<lparr> claims = decoded,
                      cTypeHash = ec_ctypeHash c,
                      delegationId = ec_authorization c,
                      subject = credentialSubject \<rparr>)))"

definition storesCredential :: "string \<Rightarrow> Event \<Rightarrow> bool" where
  "storesCredential credentialId event =
     (case event of
        CredentialStored _ cid \<Rightarrow> cid = credentialId
      | OtherEvent _ \<Rightarrow> False)"

definition retrievePublicCredentialCreationExtrinsicFromBlock ::
  "'c credential_helpers \<Rightarrow> string \<Rightarrow> 64 word \<Rightarrow> error + Call option" where
  "retrievePublicCredentialCreationExtrinsicFromBlock h credentialId blockNo =
     (case getBlockByNumber h blockNo of
        Inl e \<Rightarrow> Inl e
      | Inr extrinsics \<Rightarrow>
          (let successfulExtrinsics = filter (\<lambda>t. tx_dispatchError t = None) extrinsics;
               lastPublicCredentialCreationExtrinsic =
                 find (\<lambda>t. list_ex (storesCredential credentialId) (tx_events t))
                   (rev successfulExtrinsics)
           in Inr (map_option tx_extrinsic lastPublicCredentialCreationExtrinsic)))"

text \<open>
  The two extraction functions filter the flattened calls with a type guard; the model
  returns what the guard gives access to: the credential of an addition, the DID
  account and the wrapped call of a DID-authorized call.
\<close>

definition addedCredential :: "Call \<Rightarrow> EncodedCredential option" where
  "addedCredential c = (case c of PublicCredentialsAdd ec \<Rightarrow> Some ec | _ \<Rightarrow> None)"

definition didCall :: "Call \<Rightarrow> (string \<times> Call) option" where
  "didCall c = (case c of DidSubmitDidCall d inner \<Rightarrow> Some (d, inner) | _ \<Rightarrow> None)"

definition extractPublicCredentialCreationCallsFromDidCall :: "Call \<Rightarrow> EncodedCredential list" where
  "extractPublicCredentialCreationCallsFromDidCall call =
     List.map_filter addedCredential (flattenCalls call)"

definition extractDidCallsFromBatchCall :: "Call \<Rightarrow> (string \<times> Call) list" where
  "extractDidCallsFromBatchCall call = List.map_filter didCall (flattenCalls call)"

text \<open>
  The first branch of \<open>credentialFromChain\<close>: the extrinsic is a DID-authorized call.
  The result is the pair of \<open>credentialInput\<close> and \<open>submitter\<close>.
\<close>

definition selectFromDidCall ::
  "'c credential_helpers \<Rightarrow> string \<Rightarrow> string \<Rightarrow> Call
     \<Rightarrow> error + ('c IPublicCredentialInput option \<times> DidUri option)" where
  "selectFromDidCall h credentialId d inner =
     (let credentialCreationCalls = extractPublicCredentialCreationCallsFromDidCall inner;
          extrinsicDidOrigin = didFromChain h d
      in
      (case mapE (credentialInputFromChain h) credentialCreationCalls of
         Inl e \<Rightarrow> Inl e
       | Inr callCredentialsContent \<Rightarrow>
           (let lastRightCredentialCreationCall =
                  find (\<lambda>c. getIdForCredential h c extrinsicDidOrigin = credentialId)
                    (rev callCredentialsContent)
            in Inr (lastRightCredentialCreationCall, Some extrinsicDidOrigin))))"

text \<open>The second branch: the extrinsic is a batch, with the calls \<open>cs\<close>.\<close>

definition selectFromBatch ::
  "'c credential_helpers \<Rightarrow> string \<Rightarrow> Call list
     \<Rightarrow> error + ('c IPublicCredentialInput option \<times> DidUri option)" where
  "selectFromBatch h credentialId cs =
     (let didCalls = concat (map extractDidCallsFromBatchCall cs);
          credentialCreationCalls =
            concat (map (\<lambda>(d, inner).
                      map (\<lambda>c. (c, didFromChain h d))
                        (extractPublicCredentialCreationCallsFromDidCall inner))
                    didCalls)
      in
      (case mapE (\<lambda>(c, s). (case credentialInputFromChain h c of
                               Inl e \<Rightarrow> Inl e
                             | Inr i \<Rightarrow> Inr (i, s)))
              credentialCreationCalls of
         Inl e \<Rightarrow> Inl e
       | Inr callCredentialsContent \<Rightarrow>
           (let lastRightCredentialCreationCall =
                  find (\<lambda>(c, s). getIdForCredential h c s = credentialId)
                    (rev callCredentialsContent)
            in Inr (map_option fst lastRightCredentialCreationCall,
                    map_option snd lastRightCredentialCreationCall))))"

text \<open>
  The chain of \<open>if\<close>, \<open>else if\<close> and \<open>else\<close> on the kind of the extrinsic: the pair of
  \<open>credentialInput\<close> and \<open>submitter\<close> after it, or the exception of its last branch.
\<close>

definition selectCredential ::
  "'c credential_helpers \<Rightarrow> string \<Rightarrow> Call
     \<Rightarrow> error + ('c IPublicCredentialInput option \<times> DidUri option)" where
  "selectCredential h credentialId extrinsic =
     (case extrinsic of
        DidSubmitDidCall d inner \<Rightarrow> selectFromDidCall h credentialId d inner
      | _ \<Rightarrow>
          (case batchCalls extrinsic of
             Some cs \<Rightarrow> selectFromBatch h credentialId cs
           | None \<Rightarrow> Inl PublicCredentialError))"

definition credentialFromChain ::
  "'c credential_helpers \<Rightarrow> string \<Rightarrow> CredentialEntry option \<Rightarrow> error + 'c IPublicCredential" where
  "credentialFromChain h credentialId publicCredentialEntry =
     (case publicCredentialEntry of
        None \<Rightarrow> Inl (ExternalError ''unwrap'')
      | Some entry \<Rightarrow>
          (case retrievePublicCredentialCreationExtrinsicFromBlock h credentialId
                  (ce_blockNumber entry) of
             Inl e \<Rightarrow> Inl e
           | Inr None \<Rightarrow> Inl PublicCredentialError
           | Inr (Some extrinsic) \<Rightarrow>
               (case selectCredential h credentialId extrinsic of
                  Inl e \<Rightarrow> Inl e
                | Inr (Some credentialInput, Some submitter) \<Rightarrow>
                    Inr \<lparr> claims = claims credentialInput,
                          cTypeHash = cTypeHash credentialInput,
                          delegationId = delegationId credentialInput,
                          subject = subject credentialInput,
                          attester = submitter,
                          cred_id = getIdForCredential h credentialInput submitter,
                          blockNumber = ce_blockNumber entry,
                          revoked = ce_revoked entry \<rparr>
                | Inr _ \<Rightarrow> Inl PublicCredentialError)))"

subsection \<open>Notions the statements about the reconstruction use\<close>

text \<open>
  The winning extrinsic of a block: the last successful extrinsic with a
  \<open>CredentialStored\<close> event for the credential.
\<close>

definition winningExtrinsic :: "string \<Rightarrow> TxWithEvent list \<Rightarrow> Call option" where
  "winningExtrinsic credentialId extrinsics =
     map_option tx_extrinsic
       (find (\<lambda>t. list_ex (storesCredential credentialId) (tx_events t))
          (rev (filter (\<lambda>t. tx_dispatchError t = None) extrinsics)))"

text \<open>
  The candidate calls of an extrinsic, in call order: the credential of each extracted
  addition, with the DID that authorized it; \<open>None\<close> when the extrinsic is neither a
  DID-authorized call nor a batch.
\<close>

definition candidateCalls ::
  "'c credential_helpers \<Rightarrow> Call \<Rightarrow> (EncodedCredential \<times> DidUri) list option" where
  "candidateCalls h extrinsic =
     (case extrinsic of
        DidSubmitDidCall d inner \<Rightarrow>
          Some (map (\<lambda>c. (c, didFromChain h d))
                  (extractPublicCredentialCreationCallsFromDidCall inner))
      | _ \<Rightarrow>
          (case batchCalls extrinsic of
             Some cs \<Rightarrow>
               Some (concat (map (\<lambda>(d, inner).
                                map (\<lambda>c. (c, didFromChain h d))
                                  (extractPublicCredentialCreationCallsFromDidCall inner))
                             (concat (map extractDidCallsFromBatchCall cs))))
           | None \<Rightarrow> None))"

text \<open>A candidate decodes to a credential input, and its identifier is recomputed.\<close>

definition decodesTo ::
  "'c credential_helpers \<Rightarrow> EncodedCredential \<times> DidUri \<Rightarrow> 'c IPublicCredentialInput \<Rightarrow> bool" where
  "decodesTo h cand i \<longleftrightarrow> credentialInputFromChain h (fst cand) = Inr i"

definition matches :: "'c credential_helpers \<Rightarrow> string \<Rightarrow> 'c IPublicCredentialInput \<times> DidUri \<Rightarrow> bool" where
  "matches h credentialId cs \<longleftrightarrow> getIdForCredential h (fst cs) (snd cs) = credentialId"

text \<open>The credential \<open>credentialFromChain\<close> builds from a selected input and submitter.\<close>

definition credentialOf ::
  "'c credential_helpers \<Rightarrow> CredentialEntry \<Rightarrow> 'c IPublicCredentialInput \<times> DidUri
     \<Rightarrow> 'c IPublicCredential" where
  "credentialOf h entry cs =
     \<lparr> claims = claims (fst cs),
       cTypeHash = cTypeHash (fst cs),
       delegationId = delegationId (fst cs),
       subject = subject (fst cs),
       attester = snd cs,
       cred_id = getIdForCredential h (fst cs) (snd cs),
       blockNumber = ce_blockNumber entry,
       revoked = ce_revoked entry \<rparr>"

text \<open>
  What the selection returns, in terms of the candidates: every candidate is decoded,
  and the last decoded candidate whose identifier is the requested one is taken.
\<close>

definition lastMatch ::
  "'c credential_helpers \<Rightarrow> string \<Rightarrow> (EncodedCredential \<times> DidUri) list
     \<Rightarrow> 'c IPublicCredentialInput list \<Rightarrow> ('c IPublicCredentialInput \<times> DidUri) option" where
  "lastMatch h credentialId cands inputs =
     find (matches h credentialId) (rev (zip inputs (map snd cands)))"

section \<open>The URI parser of the specification\<close>

text \<open>
  Modelled from the spec: \<open>parse\<close> of \<open>Did2.utils\<close> is not among the sources. The
  grammar is that of the specification,
  \<open>did:kilt:<light:ENC<identifier>[:DATA]|full:<identifier>>[#fragment]\<close>, with a
  key-type code \<open>ENC\<close> of two hex digits, an identifier of fixed length (the parameter
  \<open>n\<close>; the specification gives no number) and base-58 characters, a non-empty
  base-58 blob \<open>DATA\<close>; a string outside the grammar fails with \<open>MalformedUri\<close>. The
  version is 1, the fragment is returned with its \<open>#\<close>. The definitions up to
  \<open>spec_parse\<close> are its parts.
\<close>

definition isHexDigit :: "char \<Rightarrow> bool" where
  "isHexDigit c \<longleftrightarrow> c \<in> set ''0123456789abcdefABCDEF''"

definition isBase58Char :: "char \<Rightarrow> bool" where
  "isBase58Char c \<longleftrightarrow>
     c \<in> set ''123456789ABCDEFGHJKLMNPQRSTUVWXYZabcdefghijkmnopqrstuvwxyz''"

definition splitFragment :: "string \<Rightarrow> string \<times> string option" where
  "splitFragment s =
     (takeWhile (\<lambda>c. c \<noteq> CHR ''#'') s,
      (case dropWhile (\<lambda>c. c \<noteq> CHR ''#'') s of [] \<Rightarrow> None | f # fs \<Rightarrow> Some (f # fs)))"

definition malformedFragment :: "string option \<Rightarrow> bool" where
  "malformedFragment fragment =
     (case fragment of
        None \<Rightarrow> False
      | Some f \<Rightarrow> length f < 2 \<or> CHR ''#'' \<in> set (tl f))"

definition parseLight :: "nat \<Rightarrow> string \<Rightarrow> string option \<Rightarrow> error + ParsedDid" where
  "parseLight n main fragment =
     (let rest = drop 15 main;
          enc = take 2 rest;
          address = take n (drop 2 rest);
          data = drop (n + 2) rest
      in
      (if length enc = 2 \<and> list_all isHexDigit enc
          \<and> length address = n \<and> list_all isBase58Char address
          \<and> (data = [] \<or> (take 1 data = '':'' \<and> 1 < length data
                             \<and> list_all isBase58Char (drop 1 data)))
       then Inr \<lparr> p_did = main, p_address = address, p_type = Light, p_version = 1,
                  p_fragment = fragment, p_authKeyTypeEncoding = Some enc,
                  p_encodedDetails = (if data = [] then None else Some (drop 1 data)) \<rparr>
       else Inl (ExternalError ''MalformedUri'')))"

definition parseFull :: "nat \<Rightarrow> string \<Rightarrow> string option \<Rightarrow> error + ParsedDid" where
  "parseFull n main fragment =
     (let address = drop 14 main in
      (if length address = n \<and> list_all isBase58Char address
       then Inr \<lparr> p_did = main, p_address = address, p_type = Full, p_version = 1,
                  p_fragment = fragment, p_authKeyTypeEncoding = None,
                  p_encodedDetails = None \<rparr>
       else Inl (ExternalError ''MalformedUri'')))"

text \<open>
  Modelled from the spec: the parser of the grammar above; the fragment is split off
  first, then the variant is told by the prefix.
\<close>

definition spec_parse :: "nat \<Rightarrow> string \<Rightarrow> error + ParsedDid" where
  "spec_parse n uri =
     (let main = fst (splitFragment uri);
          fragment = snd (splitFragment uri)
      in
      (if malformedFragment fragment then Inl (ExternalError ''MalformedUri'')
       else if take 15 main = ''did:kilt:light:'' then parseLight n main fragment
       else if take 14 main = ''did:kilt:full:'' then parseFull n main fragment
       else Inl (ExternalError ''MalformedUri'')))"

text \<open>
  Modelled from the spec: \<open>validateUri\<close>, \<open>toChain\<close> and \<open>getFullDidUri\<close> of the DID
  package are not among the sources. Validation is parsing, and with the expectation
  \<open>Did\<close> a fragment is refused; the chain form of a DID is its identifier; the full DID
  URI of an identifier is \<open>did:kilt:full:<identifier>\<close>.
\<close>

definition spec_validateUri :: "nat \<Rightarrow> string \<Rightarrow> string option \<Rightarrow> error + unit" where
  "spec_validateUri n input expectType =
     (case spec_parse n input of
        Inl e \<Rightarrow> Inl e
      | Inr p \<Rightarrow>
          (if p_fragment p \<noteq> None \<and> expectType = Some ''Did''
           then Inl (ExternalError ''DidError'')
           else if p_fragment p = None \<and> expectType = Some ''ResourceUri''
           then Inl (ExternalError ''DidError'')
           else Inr ()))"

definition spec_toChain :: "nat \<Rightarrow> DidUri \<Rightarrow> error + string" where
  "spec_toChain n did =
     (case spec_parse n did of Inl e \<Rightarrow> Inl e | Inr p \<Rightarrow> Inr (p_address p))"

definition spec_getFullDidUri :: "nat \<Rightarrow> DidUri \<Rightarrow> error + DidUri" where
  "spec_getFullDidUri n did =
     (case spec_parse n did of
        Inl e \<Rightarrow> Inl e
      | Inr p \<Rightarrow> Inr (''did:kilt:full:'' @ p_address p))"

section \<open>A sample environment\<close>

text \<open>
  The operations above take their helpers as parameters. To run them on concrete
  inputs, this section gives one small instance of the helpers: the parser is that of
  the specification, the codecs of keys, addresses, CBOR and base58 are code books
  (finite tables that are inverted by search), the chain is a pair of functions.
\<close>

subsection \<open>Code books for the codecs\<close>

text \<open>
  A key book lists, for each key, its multibase text, its type and bytes, and its
  address. Decoding looks an entry up, encoding searches for it.
\<close>

type_synonym key_book = "(string \<times> (string \<times> byte list) \<times> string) list"

definition book_decodeMultikey :: "key_book \<Rightarrow> VerificationMethod \<Rightarrow> error + (string \<times> byte list)" where
  "book_decodeMultikey book vm =
     (case find (\<lambda>(mb, k, a). mb = publicKeyMultibase vm) book of
        Some (mb, k, a) \<Rightarrow> Inr k
      | None \<Rightarrow> Inl (ExternalError ''multikey''))"

definition book_encodeMultikey ::
  "key_book \<Rightarrow> DidUri \<Rightarrow> string \<Rightarrow> string \<times> byte list \<Rightarrow> error + VerificationMethod" where
  "book_encodeMultikey book controller ident key =
     (case find (\<lambda>(mb, k, a). k = key) book of
        Some (mb, k, a) \<Rightarrow>
          Inr \<lparr> vm_id = ident, vm_type = ''Multikey'', vm_controller = Some controller,
                publicKeyMultibase = mb \<rparr>
      | None \<Rightarrow> Inl DidError)"

definition book_address :: "key_book \<Rightarrow> VerificationMethod \<Rightarrow> error + string" where
  "book_address book vm =
     (case find (\<lambda>(mb, k, a). mb = publicKeyMultibase vm) book of
        Some (mb, k, a) \<Rightarrow> Inr a
      | None \<Rightarrow> Inl (ExternalError ''multikey''))"

definition book_decodeAddress :: "key_book \<Rightarrow> string \<Rightarrow> error + byte list" where
  "book_decodeAddress book address =
     (case find (\<lambda>(mb, k, a). a = address) book of
        Some (mb, k, a) \<Rightarrow> Inr (snd k)
      | None \<Rightarrow> Inl (ExternalError ''ss58''))"

definition book_encode :: "('a \<times> 'b) list \<Rightarrow> 'b \<Rightarrow> 'a \<Rightarrow> 'b" where
  "book_encode book dflt x =
     (case find (\<lambda>(a, b). a = x) book of Some (a, b) \<Rightarrow> b | None \<Rightarrow> dflt)"

definition book_decode :: "('a \<times> 'b) list \<Rightarrow> string \<Rightarrow> 'b \<Rightarrow> error + 'a" where
  "book_decode book what y =
     (case find (\<lambda>(a, b). b = y) book of
        Some (a, b) \<Rightarrow> Inr a
      | None \<Rightarrow> Inl (ExternalError what))"

text \<open>
  Modelled from the spec: \<open>fragmentIdToChain\<close> of \<open>Did2.chain\<close> is not among the
  sources; service ids are stripped of their fragment prefix \<open>#\<close> before serialization.
\<close>

definition stripHash :: "string \<Rightarrow> string" where
  "stripHash s = (if take 1 s = ''#'' then drop 1 s else s)"

definition sample_validateNewService :: "ServiceEndpoint \<Rightarrow> error + unit" where
  "sample_validateNewService s =
     (if take 8 (se_id s) = ''did:kilt'' then Inl DidError else Inr ())"

definition sample_helpers ::
  "nat \<Rightarrow> key_book \<Rightarrow> (SerializableStructure \<times> byte list) list \<Rightarrow> (byte list \<times> string) list
     \<Rightarrow> did_helpers" where
  "sample_helpers n keys cborBook base58Book =
     \<lparr> decodeMultikeyVerificationMethod = book_decodeMultikey keys,
       encodeVerificationMethodToMultiKey = book_encodeMultikey keys,
       getAddressByVerificationMethod = book_address keys,
       decodeAddress = book_decodeAddress keys,
       parse = spec_parse n,
       encryptionKeyTypes = [''x25519''],
       fragmentIdToChain = stripHash,
       validateNewService = sample_validateNewService,
       cbor_encode = book_encode cborBook [],
       cbor_decode = book_decode cborBook ''cbor'',
       base58Encode = book_encode base58Book [],
       base58Decode = book_decode base58Book ''base58'' \<rparr>"

text \<open>
  The sample resolver environment over given helpers and a given chain. The
  serializers are placeholders: no statement below depends on the bytes they produce.
\<close>

definition sample_env ::
  "nat \<Rightarrow> did_helpers \<Rightarrow> (string \<Rightarrow> error + DidDocument option) \<Rightarrow> (string \<Rightarrow> error + bool)
     \<Rightarrow> resolver_env" where
  "sample_env n h link black =
     \<lparr> helpers = h,
       toChain = spec_toChain n,
       validateUri = spec_validateUri n,
       getFullDidUri = spec_getFullDidUri n,
       linkedInfo = link,
       didBlacklist = black,
       W3C_DID_CONTEXT_URL = ''https://www.w3.org/ns/did/v1'',
       KILT_DID_CONTEXT_URL = ''ipfs://QmU7QkuTCPz7NmD5bD7Z7mQVz2UsSPaEK58B5sYnjnPRNW'',
       jsonStringify = (\<lambda>r c. []),
       cborEncodeResource = (\<lambda>r. []),
       bufferFromString = (\<lambda>s. []) \<rparr>"

subsection \<open>Sample keys, documents and chains\<close>

definition sample_keys :: key_book where
  "sample_keys =
     [(''z6MkAuth'', (''ed25519'', [1, 2, 3]), ''4pAuth''),
      (''z6MkSr'', (''sr25519'', [7, 8, 9]), ''4pSrAu''),
      (''z6LSEnc'', (''x25519'', [4, 5, 6]), ''4pEncr'')]"

definition sample_authKey :: VerificationMethod where
  "sample_authKey =
     \<lparr> vm_id = ''#auth'', vm_type = ''Multikey'', vm_controller = None,
       publicKeyMultibase = ''z6MkAuth'' \<rparr>"

definition sample_encKey :: VerificationMethod where
  "sample_encKey =
     \<lparr> vm_id = ''#enc'', vm_type = ''Multikey'', vm_controller = None,
       publicKeyMultibase = ''z6LSEnc'' \<rparr>"

definition sample_service :: ServiceEndpoint where
  "sample_service =
     \<lparr> se_id = ''#my-service'', se_type = Some [''KiltPublishedCredentialCollectionV1''],
       se_serviceEndpoint = Some [''https://example.com/''] \<rparr>"

definition sample_structure :: SerializableStructure where
  "sample_structure =
     \<lparr> ser_e = Some sample_encKey,
       ser_s = Some [\<lparr> ss_id = ''my-service'',
                      ss_type = Some [''KiltPublishedCredentialCollectionV1''],
                      ss_serviceEndpoint = Some [''https://example.com/''],
                      ss_types = None, ss_urls = None \<rparr>] \<rparr>"

definition sample_codec :: did_helpers where
  "sample_codec =
     sample_helpers 6 sample_keys
       [(sample_structure, [0xA2, 0x61, 0x65])]
       [([0x00, 0xA2, 0x61, 0x65], ''z2Extras'')]"

definition sample_fullDocument :: DidDocument where
  "sample_fullDocument =
     \<lparr> doc_id = ''did:kilt:full:4pAuth'',
       authentication = Some [''#key1''],
       keyAgreement = None, assertionMethod = None, capabilityDelegation = None,
       verificationMethod =
         Some [\<lparr> vm_id = ''#key1'', vm_type = ''Multikey'',
                  vm_controller = Some ''did:kilt:full:4pAuth'',
                  publicKeyMultibase = ''z6MkAuth'' \<rparr>],
       service = None \<rparr>"

text \<open>
  Four chains: one that knows no DID, one where the identifier \<open>4pAuth\<close> has a full
  DID, one where it is in the deleted-DID index, and one that answers both.
\<close>

definition noLink :: "string \<Rightarrow> error + DidDocument option" where
  "noLink a = Inr None"

definition fullLink :: "string \<Rightarrow> error + DidDocument option" where
  "fullLink a = (if a = ''4pAuth'' then Inr (Some sample_fullDocument) else Inr None)"

definition failingLink :: "string \<Rightarrow> error + DidDocument option" where
  "failingLink a = Inl (ExternalError ''network'')"

definition noneDeleted :: "string \<Rightarrow> error + bool" where
  "noneDeleted a = Inr False"

definition authDeleted :: "string \<Rightarrow> error + bool" where
  "authDeleted a = Inr (a = ''4pAuth'')"

subsection \<open>Sample credentials and blocks\<close>

text \<open>
  Decoded claims are lists of key and value here. The CBOR decoder is a code book;
  an asset DID is valid when it starts with \<open>did:asset:\<close>; the DID of an account is
  the full DID URI of the specification's grammar. The identifier of a credential is
  a parameter: the sample digest below leaves the claims out, so that two different
  credentials can have one identifier (with a digest free of collisions, the
  candidates of one identifier are equal and the first cannot be told from the last).
\<close>

type_synonym sample_claims = "(string \<times> string) list"

definition sample_validateAssetUri :: "string \<Rightarrow> error + unit" where
  "sample_validateAssetUri s =
     (if take 10 s = ''did:asset:'' then Inr () else Inl (ExternalError ''InvalidDidFormat''))"

definition sample_digest :: "sample_claims IPublicCredentialInput \<Rightarrow> DidUri \<Rightarrow> string" where
  "sample_digest c s = cTypeHash c @ ''/'' @ subject c @ ''/'' @ s"

definition sample_credential_helpers ::
  "(64 word \<Rightarrow> error + TxWithEvent list) \<Rightarrow> sample_claims credential_helpers" where
  "sample_credential_helpers block =
     \<lparr> getBlockByNumber = block,
       validateAssetUri = sample_validateAssetUri,
       cborDecode = book_decode [([(''name'', ''first'')], [0xA1, 0x01]),
                                 ([(''name'', ''second'')], [0xA1, 0x02])] ''cbor'',
       didFromChain = (\<lambda>a. ''did:kilt:full:'' @ a),
       getIdForCredential = sample_digest \<rparr>"

definition credential_first :: EncodedCredential where
  "credential_first =
     \<lparr> ec_ctypeHash = ''0x3291'', ec_subject = ''did:asset:eip155:1.erc20:0x6b17'',
       ec_claims = [0xA1, 0x01], ec_authorization = None \<rparr>"

definition credential_second :: EncodedCredential where
  "credential_second =
     \<lparr> ec_ctypeHash = ''0x3291'', ec_subject = ''did:asset:eip155:1.erc20:0x6b17'',
       ec_claims = [0xA1, 0x02], ec_authorization = None \<rparr>"

definition credential_garbage :: EncodedCredential where
  "credential_garbage =
     \<lparr> ec_ctypeHash = ''0x3291'', ec_subject = ''garbage'',
       ec_claims = [0xA1, 0x01], ec_authorization = None \<rparr>"

definition sample_credentialId :: string where
  "sample_credentialId = ''0x3291/did:asset:eip155:1.erc20:0x6b17/did:kilt:full:4pAuth''"

definition sample_stored :: Event where
  "sample_stored = CredentialStored ''did:asset:eip155:1.erc20:0x6b17'' sample_credentialId"

text \<open>
  A block whose only extrinsic is a batch with two additions of the same identifier,
  the second nested in a further batch; a block whose extrinsic has, after them, an
  addition with a subject that is no asset DID; a block whose extrinsic stores the
  credential through a call the reconstruction does not look into, next to such an
  addition; and a block without a \<open>CredentialStored\<close> event.
\<close>

definition block_twice :: "64 word \<Rightarrow> error + TxWithEvent list" where
  "block_twice n =
     Inr [\<lparr> tx_extrinsic =
               UtilityBatch
                 [DidSubmitDidCall ''4pAuth'' (PublicCredentialsAdd credential_first),
                  OtherCall ''balances.transfer'',
                  UtilityBatchAll
                    [DidSubmitDidCall ''4pAuth''
                       (UtilityBatch [PublicCredentialsAdd credential_second])]],
             tx_events = [OtherEvent ''system.ExtrinsicSuccess'', sample_stored],
             tx_dispatchError = None \<rparr>]"

definition block_twice_garbage :: "64 word \<Rightarrow> error + TxWithEvent list" where
  "block_twice_garbage n =
     Inr [\<lparr> tx_extrinsic =
               UtilityForceBatch
                 [DidSubmitDidCall ''4pAuth'' (PublicCredentialsAdd credential_first),
                  DidSubmitDidCall ''4pAuth'' (PublicCredentialsAdd credential_second),
                  DidSubmitDidCall ''4pAuth'' (PublicCredentialsAdd credential_garbage)],
             tx_events = [sample_stored],
             tx_dispatchError = None \<rparr>]"

definition block_garbage :: "64 word \<Rightarrow> error + TxWithEvent list" where
  "block_garbage n =
     Inr [\<lparr> tx_extrinsic =
               UtilityForceBatch
                 [OtherCall ''proxy.proxy'',
                  DidSubmitDidCall ''4pAuth'' (PublicCredentialsAdd credential_garbage)],
             tx_events = [sample_stored],
             tx_dispatchError = None \<rparr>]"

definition block_unrelated :: "64 word \<Rightarrow> error + TxWithEvent list" where
  "block_unrelated n =
     Inr [\<lparr> tx_extrinsic =
               DidSubmitDidCall ''4pAuth'' (PublicCredentialsAdd credential_first),
             tx_events = [OtherEvent ''system.ExtrinsicFailed''],
             tx_dispatchError = Some ''publicCredentials.AlreadyAttested'' \<rparr>]"

definition block_hidden :: "64 word \<Rightarrow> error + TxWithEvent list" where
  "block_hidden n =
     Inr [\<lparr> tx_extrinsic = UtilityBatch [OtherCall ''proxy.proxy''],
             tx_events = [sample_stored],
             tx_dispatchError = None \<rparr>]"

definition sample_entry :: CredentialEntry where
  "sample_entry = \<lparr> ce_blockNumber = 7, ce_revoked = False \<rparr>"

section \<open>Sample inputs of the light DID codec\<close>

definition input_minimal :: CreateDocumentInput where
  "input_minimal =
     \<lparr> in_authentication = sample_authKey, in_keyAgreement = None, in_service = None \<rparr>"

definition input_complete :: CreateDocumentInput where
  "input_complete =
     \<lparr> in_authentication = sample_authKey, in_keyAgreement = Some sample_encKey,
       in_service = Some [sample_service] \<rparr>"

definition input_emptyServices :: CreateDocumentInput where
  "input_emptyServices =
     \<lparr> in_authentication = sample_authKey, in_keyAgreement = None, in_service = Some [] \<rparr>"

section \<open>Properties of the light DID codec\<close>

lemma serialize_nothing:
  "svc = None \<or> svc = Some [] \<Longrightarrow> serializeAdditionalLightDidDetails h None svc = None"
  by (auto simp: serializeAdditionalLightDidDetails_def objectToSerialize_def)

lemma validate_minimal:
  assumes "decodeMultikeyVerificationMethod h (in_authentication x) = Inr (kt, pk)"
      and "verificationKeyTypeToLightDidEncoding kt = Some c"
      and "in_keyAgreement x = None"
      and "in_service x = None \<or> in_service x = Some []"
  shows "validateCreateDocumentInput h x = Inr ()"
  using assms by (auto simp: validateCreateDocumentInput_def)

text \<open>
  C9. A creation input with one ed25519 authentication key, no key agreement key and
  no services (the property absent, or an empty list) yields a document whose id is
  exactly \<open>did:kilt:light:01\<close> followed by the address of the key: nothing follows the
  address, in particular no \<open>:\<close> and no encoded details. The table of key-type codes
  maps sr25519 to \<open>00\<close> and ed25519 to \<open>01\<close>. The address is what
  \<open>getAddressByVerificationMethod\<close> returns; the helper that builds the verification
  method of the document is assumed to accept the key it was decoded from.
\<close>

theorem createLightDidDocument_minimal_uri:
  assumes "decodeMultikeyVerificationMethod h (in_authentication x) = Inr (''ed25519'', publicKey)"
      and "getAddressByVerificationMethod h (in_authentication x) = Inr address"
      and "in_keyAgreement x = None"
      and "in_service x = None \<or> in_service x = Some []"
      and "encodeVerificationMethodToMultiKey h (''did:kilt:light:01'' @ address)
             ''#authentication'' (''ed25519'', publicKey) = Inr vm"
  shows "createLightDidDocument h x =
           Inr \<lparr> doc_id = ''did:kilt:light:01'' @ address,
                 authentication = Some [''#authentication''],
                 keyAgreement = None, assertionMethod = None, capabilityDelegation = None,
                 verificationMethod = Some [vm],
                 service = in_service x \<rparr>
         \<and> verificationKeyTypeToLightDidEncoding ''sr25519'' = Some ''00''
         \<and> verificationKeyTypeToLightDidEncoding ''ed25519'' = Some ''01''"
proof -
  have enc: "verificationKeyTypeToLightDidEncoding ''ed25519'' = Some ''01''"
    and enc': "verificationKeyTypeToLightDidEncoding ''sr25519'' = Some ''00''"
    by (simp_all add: verificationKeyTypeToLightDidEncoding_def)
  have val: "validateCreateDocumentInput h x = Inr ()"
    using validate_minimal [OF assms(1) enc assms(3) assms(4)] .
  have ser: "serializeAdditionalLightDidDetails h None (in_service x) = None"
    using serialize_nothing [OF assms(4)] .
  have uri: "lightDidUri (Some ''01'') address None = ''did:kilt:light:01'' @ address"
    by (simp add: lightDidUri_def)
  have "createLightDidDocument h x =
           Inr \<lparr> doc_id = ''did:kilt:light:01'' @ address,
                 authentication = Some [''#authentication''],
                 keyAgreement = None, assertionMethod = None, capabilityDelegation = None,
                 verificationMethod = Some [vm],
                 service = in_service x \<rparr>"
    using assms(1,2,3,5)
    by (simp add: createLightDidDocument_def val ser enc uri addKeyAgreement_def
          authenticationKeyId_def Let_def)
  with enc enc' show ?thesis by simp
qed

lemma sample_decode_auth:
  "decodeMultikeyVerificationMethod sample_codec sample_authKey = Inr (''ed25519'', [1, 2, 3])"
  by (simp add: sample_codec_def sample_helpers_def book_decodeMultikey_def sample_keys_def
        sample_authKey_def)

lemma sample_address_auth:
  "getAddressByVerificationMethod sample_codec sample_authKey = Inr ''4pAuth''"
  by (simp add: sample_codec_def sample_helpers_def book_address_def sample_keys_def
        sample_authKey_def)

lemma sample_encode_auth:
  "encodeVerificationMethodToMultiKey sample_codec uri ident (''ed25519'', [1, 2, 3]) =
     Inr \<lparr> vm_id = ident, vm_type = ''Multikey'', vm_controller = Some uri,
           publicKeyMultibase = ''z6MkAuth'' \<rparr>"
  by (simp add: sample_codec_def sample_helpers_def book_encodeMultikey_def sample_keys_def)

theorem createLightDidDocument_minimal_uri_witness:
  "createLightDidDocument sample_codec input_minimal =
     Inr \<lparr> doc_id = ''did:kilt:light:014pAuth'',
           authentication = Some [''#authentication''],
           keyAgreement = None, assertionMethod = None, capabilityDelegation = None,
           verificationMethod =
             Some [\<lparr> vm_id = ''#authentication'', vm_type = ''Multikey'',
                      vm_controller = Some ''did:kilt:light:014pAuth'',
                      publicKeyMultibase = ''z6MkAuth'' \<rparr>],
           service = None \<rparr>"
  using createLightDidDocument_minimal_uri [of sample_codec input_minimal "[1, 2, 3]" "''4pAuth''"]
    sample_decode_auth sample_address_auth sample_encode_auth
  by (simp add: input_minimal_def)

section \<open>Properties of the resolver\<close>

text \<open>
  C7. For every \<open>accept\<close> value outside the three supported media types,
  \<open>resolveRepresentation\<close> returns the error \<open>representationNotSupported\<close> with empty
  document metadata and no stream, and it has made no request to the chain: the list
  of requests is empty, whatever the environment and the DID are.
\<close>

theorem resolveRepresentation_unsupported_accept:
  assumes "accept \<notin> {Some ''application/did+json'', Some ''application/did+ld+json'',
                      Some ''application/did+cbor''}"
  shows "resolveRepresentation env did accept =
           (Inr \<lparr> rep_didResolutionMetadata_error = Some ''representationNotSupported'',
                  rep_didDocumentMetadata = \<lparr> deactivated = None, canonicalId = None \<rparr>,
                  didDocumentStream = None \<rparr>, [])"
  using assms
  by (simp add: resolveRepresentation_def isValidContentType_def DID_JSON_def DID_JSON_LD_def
        DID_CBOR_def emptyMetadata_def)

theorem resolveRepresentation_unsupported_accept_witness:
  "resolveRepresentation (sample_env 6 sample_codec fullLink noneDeleted)
       ''did:kilt:full:4pAuth'' (Some ''text/html'') =
     (Inr \<lparr> rep_didResolutionMetadata_error = Some ''representationNotSupported'',
            rep_didDocumentMetadata = \<lparr> deactivated = None, canonicalId = None \<rparr>,
            didDocumentStream = None \<rparr>, [])"
  using resolveRepresentation_unsupported_accept
          [of "Some ''text/html''" "sample_env 6 sample_codec fullLink noneDeleted"
              "''did:kilt:full:4pAuth''"]
  by simp

lemma createLightDidDocument_has_methods:
  assumes "createLightDidDocument h x = Inr d"
  shows "verificationMethod d \<noteq> None"
  using assms
  by (auto simp: createLightDidDocument_def addKeyAgreement_def Let_def
           split: sum.splits option.splits prod.splits)

lemma parseDocumentFromLightDid_has_methods:
  assumes "parseDocumentFromLightDid h uri b = Inr d"
  shows "verificationMethod d \<noteq> None"
  using assms createLightDidDocument_has_methods
  by (auto simp: parseDocumentFromLightDid_def
           split: sum.splits option.splits prod.splits if_splits)

text \<open>
  C6. When the validation of the input as a DID fails, \<open>resolve\<close> returns the error
  \<open>invalidDid\<close> as a value (with empty document metadata, no document and no request
  to the chain). When the linked-info query of the chain raises an exception at the
  address of the DID, \<open>resolve\<close> behaves exactly as on the chain that answers "no
  document" at that address: the exception is never the outcome of the lookup step.
\<close>

theorem resolve_failure_policy:
  "(validateUri env did (Some ''Did'') = Inl e \<longrightarrow>
      resolve env did =
        (Inr \<lparr> didResolutionMetadata_error = Some ''invalidDid'',
               didDocumentMetadata = \<lparr> deactivated = None, canonicalId = None \<rparr>,
               didDocument = None \<rparr>, []))
   \<and> (toChain env did = Inr a \<and> linkedInfo env a = Inl e' \<longrightarrow>
        resolve env did =
          resolve (env \<lparr> linkedInfo := (linkedInfo env) (a := Inr None) \<rparr>) did)"
  by (auto simp: resolve_def resolveInternal_def resolveAfterQuery_def resolveLight_def
        emptyMetadata_def Let_def split: sum.splits)

lemmas parser_defs =
  spec_parse_def splitFragment_def malformedFragment_def parseLight_def parseFull_def
  isHexDigit_def isBase58Char_def spec_validateUri_def spec_toChain_def
  spec_getFullDidUri_def Let_def

lemmas sample_defs =
  sample_env_def sample_codec_def sample_helpers_def sample_keys_def
  book_decodeMultikey_def book_encodeMultikey_def book_address_def book_decodeAddress_def
  book_encode_def book_decode_def stripHash_def sample_validateNewService_def
  sample_authKey_def sample_encKey_def sample_service_def sample_structure_def
  sample_fullDocument_def noLink_def fullLink_def failingLink_def noneDeleted_def
  authDeleted_def

lemmas resolver_defs =
  resolve_def resolveInternal_def resolveAfterQuery_def resolveLight_def emptyMetadata_def
  idOnlyDocument_def

lemmas codec_defs =
  parseDocumentFromLightDid_def createLightDidDocument_def validateCreateDocumentInput_def
  serializeAdditionalLightDidDetails_def objectToSerialize_def serializeService_def
  deserializeAdditionalLightDidDetails_def deserializeService_def lightDidUri_def
  addKeyAgreement_def truthy_def keyTypeOfEncoding_def
  lightDidEncodingToVerificationKeyType_def verificationKeyTypeToLightDidEncoding_def
  authenticationKeyId_def encryptionKeyId_def

lemma sample_parse_full:
  "spec_parse 6 ''did:kilt:full:4pAuth'' =
     Inr \<lparr> p_did = ''did:kilt:full:4pAuth'', p_address = ''4pAuth'', p_type = Full,
           p_version = 1, p_fragment = None, p_authKeyTypeEncoding = None,
           p_encodedDetails = None \<rparr>"
  by (simp add: parser_defs)

lemma sample_parse_garbage: "spec_parse 6 ''kilt:4pAuth'' = Inl (ExternalError ''MalformedUri'')"
  by (simp add: parser_defs)

theorem resolve_failure_policy_witness:
  "resolve (sample_env 6 sample_codec failingLink noneDeleted) ''kilt:4pAuth'' =
     (Inr \<lparr> didResolutionMetadata_error = Some ''invalidDid'',
            didDocumentMetadata = \<lparr> deactivated = None, canonicalId = None \<rparr>,
            didDocument = None \<rparr>, [])
   \<and> linkedInfo (sample_env 6 sample_codec failingLink noneDeleted) ''4pAuth'' =
       Inl (ExternalError ''network'')
   \<and> resolve (sample_env 6 sample_codec failingLink noneDeleted) ''did:kilt:full:4pAuth'' =
       resolve (sample_env 6 sample_codec (failingLink (''4pAuth'' := Inr None)) noneDeleted)
         ''did:kilt:full:4pAuth''"
proof -
  let ?env = "sample_env 6 sample_codec failingLink noneDeleted"
  have v: "validateUri ?env ''kilt:4pAuth'' (Some ''Did'') = Inl (ExternalError ''MalformedUri'')"
    by (simp add: sample_env_def spec_validateUri_def sample_parse_garbage)
  have c: "toChain ?env ''did:kilt:full:4pAuth'' = Inr ''4pAuth''"
    by (simp add: sample_env_def spec_toChain_def sample_parse_full)
  have l: "linkedInfo ?env ''4pAuth'' = Inl (ExternalError ''network'')"
    by (simp add: sample_env_def failingLink_def)
  have u: "?env \<lparr> linkedInfo := (linkedInfo ?env) (''4pAuth'' := Inr None) \<rparr> =
           sample_env 6 sample_codec (failingLink (''4pAuth'' := Inr None)) noneDeleted"
    by (simp add: sample_env_def)
  from resolve_failure_policy [of ?env "''kilt:4pAuth''" "ExternalError ''MalformedUri''"] v
  have r1: "resolve ?env ''kilt:4pAuth'' =
     (Inr \<lparr> didResolutionMetadata_error = Some ''invalidDid'',
            didDocumentMetadata = \<lparr> deactivated = None, canonicalId = None \<rparr>,
            didDocument = None \<rparr>, [])"
    by blast
  from resolve_failure_policy
         [of ?env "''did:kilt:full:4pAuth''" _ "''4pAuth''" "ExternalError ''network''"] c l
  have r2: "resolve ?env ''did:kilt:full:4pAuth'' =
     resolve (?env \<lparr> linkedInfo := (linkedInfo ?env) (''4pAuth'' := Inr None) \<rparr>)
       ''did:kilt:full:4pAuth''"
    by blast
  from r1 l r2 u show ?thesis by simp
qed

text \<open>
  C5. Two outcomes of \<open>resolve\<close> on valid DIDs. (1) The identifier of the DID is in the
  deleted-DID index, and the linked-info query does not answer a full DID with a
  document: the result has \<open>deactivated: true\<close>, no document and no error. (2) A full
  DID for which the linked-info query returns no document and which is not in the
  deleted-DID index: the result has the error \<open>notFound\<close> and empty document metadata.
  The two results are different. The exception in (1) is needed: the document of a
  full DID is returned before the deleted-DID index is consulted.
\<close>

theorem resolve_deleted_vs_notFound:
  assumes "validateUri env did (Some ''Did'') = Inr ()"
      and "parse (helpers env) did = Inr p"
      and "toChain env did = Inr a"
      and "didBlacklist env a = Inr True"
      and "\<not> (p_type p = Full \<and> (\<exists>d. linkedInfo env a = Inr (Some d)))"
      and "validateUri env' did' (Some ''Did'') = Inr ()"
      and "parse (helpers env') did' = Inr p'"
      and "p_type p' = Full"
      and "toChain env' did' = Inr a'"
      and "linkedInfo env' a' = Inr None"
      and "didBlacklist env' a' = Inr False"
  shows "fst (resolve env did) =
           Inr \<lparr> didResolutionMetadata_error = None,
                 didDocumentMetadata = \<lparr> deactivated = Some True, canonicalId = None \<rparr>,
                 didDocument = None \<rparr>
         \<and> fst (resolve env' did') =
           Inr \<lparr> didResolutionMetadata_error = Some ''notFound'',
                 didDocumentMetadata = \<lparr> deactivated = None, canonicalId = None \<rparr>,
                 didDocument = None \<rparr>
         \<and> fst (resolve env did) \<noteq> fst (resolve env' did')"
proof -
  have doc: "p_type p = Full \<Longrightarrow>
               (case linkedInfo env a of Inl x \<Rightarrow> None | Inr d \<Rightarrow> d) = None"
    using assms(5) by (auto split: sum.splits)
  have one: "fst (resolve env did) =
           Inr \<lparr> didResolutionMetadata_error = None,
                 didDocumentMetadata = \<lparr> deactivated = Some True, canonicalId = None \<rparr>,
                 didDocument = None \<rparr>"
    using assms(1-4) doc
    by (cases "p_type p")
       (auto simp: resolve_def resolveInternal_def resolveAfterQuery_def Let_def)
  have two: "fst (resolve env' did') =
           Inr \<lparr> didResolutionMetadata_error = Some ''notFound'',
                 didDocumentMetadata = \<lparr> deactivated = None, canonicalId = None \<rparr>,
                 didDocument = None \<rparr>"
    using assms(6-11)
    by (simp add: resolve_def resolveInternal_def resolveAfterQuery_def Let_def
          emptyMetadata_def)
  from one two show ?thesis by simp
qed

lemma sample_validate_full:
  "spec_validateUri 6 ''did:kilt:full:4pAuth'' (Some ''Did'') = Inr ()"
  by (simp add: spec_validateUri_def sample_parse_full)

theorem resolve_deleted_vs_notFound_witness:
  "fst (resolve (sample_env 6 sample_codec noLink authDeleted) ''did:kilt:full:4pAuth'') =
     Inr \<lparr> didResolutionMetadata_error = None,
           didDocumentMetadata = \<lparr> deactivated = Some True, canonicalId = None \<rparr>,
           didDocument = None \<rparr>
   \<and> fst (resolve (sample_env 6 sample_codec noLink noneDeleted) ''did:kilt:full:4pAuth'') =
     Inr \<lparr> didResolutionMetadata_error = Some ''notFound'',
           didDocumentMetadata = \<lparr> deactivated = None, canonicalId = None \<rparr>,
           didDocument = None \<rparr>"
proof -
  let ?deleted = "sample_env 6 sample_codec noLink authDeleted"
  let ?absent = "sample_env 6 sample_codec noLink noneDeleted"
  let ?did = "''did:kilt:full:4pAuth''"
  have v: "validateUri ?deleted ?did (Some ''Did'') = Inr ()"
          "validateUri ?absent ?did (Some ''Did'') = Inr ()"
    by (simp_all add: sample_env_def sample_validate_full)
  have p: "parse (helpers ?deleted) ?did = spec_parse 6 ?did"
          "parse (helpers ?absent) ?did = spec_parse 6 ?did"
    by (simp_all add: sample_env_def sample_codec_def sample_helpers_def)
  have c: "toChain ?deleted ?did = Inr ''4pAuth''" "toChain ?absent ?did = Inr ''4pAuth''"
    by (simp_all add: sample_env_def spec_toChain_def sample_parse_full)
  have b: "didBlacklist ?deleted ''4pAuth'' = Inr True"
          "didBlacklist ?absent ''4pAuth'' = Inr False"
    by (simp_all add: sample_env_def authDeleted_def noneDeleted_def)
  have l: "linkedInfo ?deleted ''4pAuth'' = Inr None" "linkedInfo ?absent ''4pAuth'' = Inr None"
    by (simp_all add: sample_env_def noLink_def)
  have n: "\<not> (p_type \<lparr> p_did = ''did:kilt:full:4pAuth'', p_address = ''4pAuth'',
                       p_type = Full, p_version = 1, p_fragment = None,
                       p_authKeyTypeEncoding = None, p_encodedDetails = None \<rparr> = Full
              \<and> (\<exists>d. linkedInfo ?deleted ''4pAuth'' = Inr (Some d)))"
    by (simp add: l)
  show ?thesis
    using resolve_deleted_vs_notFound
            [OF v(1) p(1) [unfolded sample_parse_full] c(1) b(1) n
                v(2) p(2) [unfolded sample_parse_full] _ c(2) l(2) b(2)]
    by simp
qed

theorem resolve_deleted_counterexample:
  "didBlacklist (sample_env 6 sample_codec fullLink authDeleted) ''4pAuth'' = Inr True
   \<and> toChain (sample_env 6 sample_codec fullLink authDeleted) ''did:kilt:full:4pAuth'' =
       Inr ''4pAuth''
   \<and> resolve (sample_env 6 sample_codec fullLink authDeleted) ''did:kilt:full:4pAuth'' =
       (Inr \<lparr> didResolutionMetadata_error = None,
              didDocumentMetadata = \<lparr> deactivated = None, canonicalId = None \<rparr>,
              didDocument = Some sample_fullDocument \<rparr>, [DidQuery ''4pAuth''])"
  by (simp add: resolver_defs sample_env_def sample_codec_def sample_helpers_def
        spec_toChain_def spec_validateUri_def sample_parse_full fullLink_def authDeleted_def)

text \<open>
  C2. Migration precedence. For a valid light DID URI whose identifier has a full DID
  document on the chain (the linked-info query returns a document), that is not in the
  deleted-DID index, and from which \<open>parseDocumentFromLightDid\<close> rebuilds a light
  document: \<open>resolve\<close> returns no error, the metadata \<open>canonicalId\<close> equal to the full
  DID URI, and the document that has only the field \<open>id\<close> (no verification method);
  this is never the rebuilt light document. The hypothesis on
  \<open>parseDocumentFromLightDid\<close> is needed: the light document is rebuilt before the
  migration is looked at.
\<close>

theorem resolve_migrated_light_did:
  assumes "validateUri env did (Some ''Did'') = Inr ()"
      and "parse (helpers env) did = Inr p"
      and "p_type p = Light"
      and "toChain env did = Inr a"
      and "linkedInfo env a = Inr (Some fullDocument)"
      and "didBlacklist env a = Inr False"
      and "getFullDidUri env did = Inr fullUri"
      and "parseDocumentFromLightDid (helpers env) did False = Inr lightDocument"
  shows "resolve env did =
           (Inr \<lparr> didResolutionMetadata_error = None,
                  didDocumentMetadata = \<lparr> deactivated = None, canonicalId = Some fullUri \<rparr>,
                  didDocument =
                    Some \<lparr> doc_id = did, authentication = None, keyAgreement = None,
                           assertionMethod = None, capabilityDelegation = None,
                           verificationMethod = None, service = None \<rparr> \<rparr>,
            [DidQuery a, DidBlacklistQuery a])
         \<and> didDocument (projr (fst (resolve env did))) \<noteq> Some lightDocument"
proof -
  have r: "resolve env did =
           (Inr \<lparr> didResolutionMetadata_error = None,
                  didDocumentMetadata = \<lparr> deactivated = None, canonicalId = Some fullUri \<rparr>,
                  didDocument =
                    Some \<lparr> doc_id = did, authentication = None, keyAgreement = None,
                           assertionMethod = None, capabilityDelegation = None,
                           verificationMethod = None, service = None \<rparr> \<rparr>,
            [DidQuery a, DidBlacklistQuery a])"
    using assms
    by (simp add: resolve_def resolveInternal_def resolveAfterQuery_def resolveLight_def
          idOnlyDocument_def Let_def)
  have "verificationMethod lightDocument \<noteq> None"
    using parseDocumentFromLightDid_has_methods [OF assms(8)] .
  then have "didDocument (projr (fst (resolve env did))) \<noteq> Some lightDocument"
    by (auto simp: r)
  with r show ?thesis by simp
qed

lemma sample_parse_light:
  "spec_parse 6 ''did:kilt:light:014pAuth'' =
     Inr \<lparr> p_did = ''did:kilt:light:014pAuth'', p_address = ''4pAuth'', p_type = Light,
           p_version = 1, p_fragment = None, p_authKeyTypeEncoding = Some ''01'',
           p_encodedDetails = None \<rparr>"
  by (simp add: parser_defs)

lemma sample_parse_light_02:
  "spec_parse 6 ''did:kilt:light:024pAuth'' =
     Inr \<lparr> p_did = ''did:kilt:light:024pAuth'', p_address = ''4pAuth'', p_type = Light,
           p_version = 1, p_fragment = None, p_authKeyTypeEncoding = Some ''02'',
           p_encodedDetails = None \<rparr>"
  by (simp add: parser_defs)

lemma sample_parseDocument_light:
  "parseDocumentFromLightDid sample_codec ''did:kilt:light:014pAuth'' b =
     Inr \<lparr> doc_id = ''did:kilt:light:014pAuth'',
           authentication = Some [''#authentication''],
           keyAgreement = None, assertionMethod = None, capabilityDelegation = None,
           verificationMethod =
             Some [\<lparr> vm_id = ''#authentication'', vm_type = ''Multikey'',
                      vm_controller = Some ''did:kilt:light:014pAuth'',
                      publicKeyMultibase = ''z6MkAuth'' \<rparr>],
           service = None \<rparr>"
proof -
  have p: "parse sample_codec = spec_parse 6"
    by (simp add: sample_codec_def sample_helpers_def)
  show ?thesis
    unfolding parseDocumentFromLightDid_def p sample_parse_light
    by (simp add: codec_defs sample_defs Let_def)
qed

theorem resolve_migrated_light_did_witness:
  "resolve (sample_env 6 sample_codec fullLink noneDeleted) ''did:kilt:light:014pAuth'' =
     (Inr \<lparr> didResolutionMetadata_error = None,
            didDocumentMetadata =
              \<lparr> deactivated = None, canonicalId = Some ''did:kilt:full:4pAuth'' \<rparr>,
            didDocument =
              Some \<lparr> doc_id = ''did:kilt:light:014pAuth'', authentication = None,
                     keyAgreement = None, assertionMethod = None,
                     capabilityDelegation = None, verificationMethod = None,
                     service = None \<rparr> \<rparr>,
      [DidQuery ''4pAuth'', DidBlacklistQuery ''4pAuth''])"
proof -
  let ?env = "sample_env 6 sample_codec fullLink noneDeleted"
  let ?did = "''did:kilt:light:014pAuth''"
  have v: "validateUri ?env ?did (Some ''Did'') = Inr ()"
    by (simp add: sample_env_def spec_validateUri_def sample_parse_light)
  have p: "parse (helpers ?env) ?did = spec_parse 6 ?did"
    by (simp add: sample_env_def sample_codec_def sample_helpers_def)
  have c: "toChain ?env ?did = Inr ''4pAuth''"
    by (simp add: sample_env_def spec_toChain_def sample_parse_light)
  have l: "linkedInfo ?env ''4pAuth'' = Inr (Some sample_fullDocument)"
    by (simp add: sample_env_def fullLink_def)
  have b: "didBlacklist ?env ''4pAuth'' = Inr False"
    by (simp add: sample_env_def noneDeleted_def)
  have f: "getFullDidUri ?env ?did = Inr ''did:kilt:full:4pAuth''"
    by (simp add: sample_env_def spec_getFullDidUri_def sample_parse_light)
  have h: "helpers ?env = sample_codec"
    by (simp add: sample_env_def)
  have d: "parseDocumentFromLightDid (helpers ?env) ?did False =
             Inr \<lparr> doc_id = ''did:kilt:light:014pAuth'',
                   authentication = Some [''#authentication''],
                   keyAgreement = None, assertionMethod = None, capabilityDelegation = None,
                   verificationMethod =
                     Some [\<lparr> vm_id = ''#authentication'', vm_type = ''Multikey'',
                              vm_controller = Some ''did:kilt:light:014pAuth'',
                              publicKeyMultibase = ''z6MkAuth'' \<rparr>],
                   service = None \<rparr>"
    unfolding h by (rule sample_parseDocument_light)
  show ?thesis
    using resolve_migrated_light_did [OF v p [unfolded sample_parse_light] _ c l b f d]
    by simp
qed

theorem resolve_migrated_light_did_counterexample:
  "validateUri (sample_env 6 sample_codec fullLink noneDeleted) ''did:kilt:light:024pAuth''
       (Some ''Did'') = Inr ()
   \<and> map_sum id p_type (parse sample_codec ''did:kilt:light:024pAuth'') = Inr Light
   \<and> linkedInfo (sample_env 6 sample_codec fullLink noneDeleted) ''4pAuth'' =
       Inr (Some sample_fullDocument)
   \<and> didBlacklist (sample_env 6 sample_codec fullLink noneDeleted) ''4pAuth'' = Inr False
   \<and> resolve (sample_env 6 sample_codec fullLink noneDeleted) ''did:kilt:light:024pAuth'' =
       (Inl DidError, [DidQuery ''4pAuth'', DidBlacklistQuery ''4pAuth''])"
proof -
  have p: "parse sample_codec = spec_parse 6"
    by (simp add: sample_codec_def sample_helpers_def)
  have d: "parseDocumentFromLightDid sample_codec ''did:kilt:light:024pAuth'' False =
             Inl DidError"
    unfolding parseDocumentFromLightDid_def p sample_parse_light_02
    by (simp add: keyTypeOfEncoding_def lightDidEncodingToVerificationKeyType_def truthy_def)
  show ?thesis
    by (simp add: resolver_defs sample_env_def p d spec_toChain_def spec_validateUri_def
          sample_parse_light_02 fullLink_def noneDeleted_def)
qed

text \<open>
  C8. For every DID URL and every \<open>accept\<close> value outside the three supported media
  types, \<open>dereference\<close> returns exactly what it returns for \<open>application/did+json\<close>; the
  result never carries the error \<open>representationNotSupported\<close>, and a result without
  error reports the content type \<open>application/did+json\<close>. \<open>resolveRepresentation\<close> with
  the same \<open>accept\<close> value returns the error \<open>representationNotSupported\<close>.
\<close>

theorem dereference_unsupported_accept:
  assumes "accept \<notin> {Some ''application/did+json'', Some ''application/did+ld+json'',
                      Some ''application/did+cbor''}"
  shows "dereference env didUrl accept = dereference env didUrl (Some ''application/did+json'')
         \<and> (\<forall>r log. dereference env didUrl accept = (Inr r, log) \<longrightarrow>
               dereferencingMetadata_error r \<noteq> Some ''representationNotSupported''
               \<and> (dereferencingMetadata_error r = None \<longrightarrow>
                    dereferencingMetadata_contentType r = Some ''application/did+json''))
         \<and> rep_didResolutionMetadata_error (projr (fst (resolveRepresentation env didUrl accept)))
             = Some ''representationNotSupported''"
proof -
  have nv: "\<not> isValidContentType accept"
    using assms by (simp add: isValidContentType_def DID_JSON_def DID_JSON_LD_def DID_CBOR_def)
  have v: "isValidContentType (Some ''application/did+json'')"
    by (simp add: isValidContentType_def DID_JSON_def)
  have eq: "dereference env didUrl accept =
              dereference env didUrl (Some ''application/did+json'')"
    using nv by (cases accept) (simp_all add: dereference_def v DID_JSON_def)
  have shape: "\<forall>r log. dereference env didUrl (Some ''application/did+json'') = (Inr r, log) \<longrightarrow>
               dereferencingMetadata_error r \<noteq> Some ''representationNotSupported''
               \<and> (dereferencingMetadata_error r = None \<longrightarrow>
                    dereferencingMetadata_contentType r = Some ''application/did+json'')"
    by (auto simp: dereference_def v Let_def split: sum.splits prod.splits option.splits)
  have rep: "rep_didResolutionMetadata_error
               (projr (fst (resolveRepresentation env didUrl accept)))
             = Some ''representationNotSupported''"
    by (simp add: resolveRepresentation_def nv)
  from eq shape rep show ?thesis by simp
qed

lemma sample_parse_light_fragment:
  "spec_parse 6 ''did:kilt:light:014pAuth#authentication'' =
     Inr \<lparr> p_did = ''did:kilt:light:014pAuth'', p_address = ''4pAuth'', p_type = Light,
           p_version = 1, p_fragment = Some ''#authentication'',
           p_authKeyTypeEncoding = Some ''01'', p_encodedDetails = None \<rparr>"
  by (simp add: parser_defs)

lemma sample_resolve_light:
  "resolve (sample_env 6 sample_codec noLink noneDeleted) ''did:kilt:light:014pAuth'' =
     (Inr \<lparr> didResolutionMetadata_error = None,
            didDocumentMetadata = \<lparr> deactivated = None, canonicalId = None \<rparr>,
            didDocument =
              Some \<lparr> doc_id = ''did:kilt:light:014pAuth'',
                     authentication = Some [''#authentication''],
                     keyAgreement = None, assertionMethod = None,
                     capabilityDelegation = None,
                     verificationMethod =
                       Some [\<lparr> vm_id = ''#authentication'', vm_type = ''Multikey'',
                                vm_controller = Some ''did:kilt:light:014pAuth'',
                                publicKeyMultibase = ''z6MkAuth'' \<rparr>],
                     service = None \<rparr> \<rparr>,
      [DidQuery ''4pAuth'', DidBlacklistQuery ''4pAuth''])"
proof -
  have p: "parse sample_codec = spec_parse 6"
    by (simp add: sample_codec_def sample_helpers_def)
  show ?thesis
    by (simp add: resolver_defs sample_env_def p sample_parseDocument_light spec_toChain_def
          spec_validateUri_def sample_parse_light noLink_def noneDeleted_def)
qed

theorem dereference_unsupported_accept_witness:
  "dereference (sample_env 6 sample_codec noLink noneDeleted)
       ''did:kilt:light:014pAuth#authentication'' (Some ''text/html'') =
     (Inr \<lparr> dereferencingMetadata_error = None,
            dereferencingMetadata_contentType = Some ''application/did+json'',
            contentMetadata = \<lparr> deactivated = None, canonicalId = None \<rparr>,
            contentStream =
              Some (PlainStream (VerificationMethodResource
                      \<lparr> vm_id = ''#authentication'', vm_type = ''Multikey'',
                        vm_controller = Some ''did:kilt:light:014pAuth'',
                        publicKeyMultibase = ''z6MkAuth'' \<rparr>)) \<rparr>,
      [DidQuery ''4pAuth'', DidBlacklistQuery ''4pAuth''])"
proof -
  let ?env = "sample_env 6 sample_codec noLink noneDeleted"
  let ?url = "''did:kilt:light:014pAuth#authentication''"
  have a: "Some ''text/html'' \<notin>
             {Some ''application/did+json'', Some ''application/did+ld+json'',
              Some ''application/did+cbor''}"
    by simp
  have v: "validateUri ?env ?url None = Inr ()"
    by (simp add: sample_env_def spec_validateUri_def sample_parse_light_fragment)
  have p: "parse (helpers ?env) ?url = spec_parse 6 ?url"
    by (simp add: sample_env_def sample_codec_def sample_helpers_def)
  have j: "dereference ?env ?url (Some ''application/did+json'') =
     (Inr \<lparr> dereferencingMetadata_error = None,
            dereferencingMetadata_contentType = Some ''application/did+json'',
            contentMetadata = \<lparr> deactivated = None, canonicalId = None \<rparr>,
            contentStream =
              Some (PlainStream (VerificationMethodResource
                      \<lparr> vm_id = ''#authentication'', vm_type = ''Multikey'',
                        vm_controller = Some ''did:kilt:light:014pAuth'',
                        publicKeyMultibase = ''z6MkAuth'' \<rparr>)) \<rparr>,
      [DidQuery ''4pAuth'', DidBlacklistQuery ''4pAuth''])"
    by (simp add: dereference_def dereferenceInternal_def dereferencedResource_def
          dereferenceStream_def isValidContentType_def DID_JSON_def v p
          sample_parse_light_fragment sample_resolve_light emptyMetadata_def)
  from dereference_unsupported_accept [OF a, of ?env ?url] j show ?thesis by simp
qed


section \<open>Properties of the credential reconstruction\<close>

lemma mapE_Inr_iff: "mapE f xs = Inr ys \<longleftrightarrow> list_all2 (\<lambda>x y. f x = Inr y) xs ys"
proof (induction xs arbitrary: ys)
  case Nil
  then show ?case by auto
next
  case (Cons x xs)
  note IH = Cons.IH [symmetric]
  show ?case
  proof (cases "f x")
    case (Inl e)
    then show ?thesis by (auto simp: list_all2_Cons1)
  next
    case fx: (Inr y)
    show ?thesis
    proof (cases "mapE f xs")
      case (Inl e)
      then show ?thesis
        by (auto simp: fx list_all2_Cons1 IH)
    next
      case (Inr zs)
      then show ?thesis
        by (auto simp: fx list_all2_Cons1 IH)
    qed
  qed
qed

lemma find_append_cases:
  "find P (xs @ ys) = (case find P xs of None \<Rightarrow> find P ys | Some x \<Rightarrow> Some x)"
  by (induction xs) auto

lemma find_rev_last:
  "find P (rev xs) = (if filter P xs = [] then None else Some (last (filter P xs)))"
proof (induction xs)
  case Nil
  then show ?case by simp
next
  case (Cons x xs)
  then show ?case
    by (simp add: find_append_cases)
qed

lemma retrieve_winning:
  "retrievePublicCredentialCreationExtrinsicFromBlock h credentialId n =
     (case getBlockByNumber h n of
        Inl e \<Rightarrow> Inl e
      | Inr extrinsics \<Rightarrow> Inr (winningExtrinsic credentialId extrinsics))"
  by (simp add: retrievePublicCredentialCreationExtrinsicFromBlock_def winningExtrinsic_def
        Let_def split: sum.splits)

text \<open>Decoding the candidates of a batch pairs each decoded input with its submitter.\<close>

lemma decode_pairs:
  "mapE (\<lambda>(c, s). (case credentialInputFromChain h c of
                      Inl e \<Rightarrow> Inl e
                    | Inr i \<Rightarrow> Inr (i, s))) cands = Inr content
   \<longleftrightarrow> (\<exists>inputs. list_all2 (decodesTo h) cands inputs
                 \<and> content = zip inputs (map snd cands))"
proof (induction cands arbitrary: content)
  case Nil
  then show ?case by auto
next
  case (Cons cand cands)
  obtain c s where cand: "cand = (c, s)" by (cases cand)
  show ?case
  proof (cases "credentialInputFromChain h c")
    case (Inl e)
    then show ?thesis
      by (auto simp: cand decodesTo_def list_all2_Cons1)
  next
    case (Inr i)
    show ?thesis
    proof
      assume "mapE (\<lambda>(c, s). (case credentialInputFromChain h c of
                      Inl e \<Rightarrow> Inl e
                    | Inr i \<Rightarrow> Inr (i, s))) (cand # cands) = Inr content"
      then obtain rest where rest: "mapE (\<lambda>(c, s). (case credentialInputFromChain h c of
                      Inl e \<Rightarrow> Inl e
                    | Inr i \<Rightarrow> Inr (i, s))) cands = Inr rest"
          and content: "content = (i, s) # rest"
        by (auto simp: cand Inr split: sum.splits)
      from rest Cons.IH obtain inputs where
        "list_all2 (decodesTo h) cands inputs" "rest = zip inputs (map snd cands)"
        by blast
      then have "list_all2 (decodesTo h) (cand # cands) (i # inputs)
                 \<and> content = zip (i # inputs) (map snd (cand # cands))"
        by (simp add: cand Inr decodesTo_def content)
      then show "\<exists>inputs. list_all2 (decodesTo h) (cand # cands) inputs
                 \<and> content = zip inputs (map snd (cand # cands))"
        by blast
    next
      assume "\<exists>inputs. list_all2 (decodesTo h) (cand # cands) inputs
                 \<and> content = zip inputs (map snd (cand # cands))"
      then obtain inputs where a: "list_all2 (decodesTo h) (cand # cands) inputs"
          and b: "content = zip inputs (map snd (cand # cands))"
        by blast
      from a obtain j rest where inputs: "inputs = j # rest"
          and j: "decodesTo h cand j" and r: "list_all2 (decodesTo h) cands rest"
        by (auto simp: list_all2_Cons1)
      from j have ji: "j = i"
        by (simp add: decodesTo_def cand Inr)
      from r Cons.IH have "mapE (\<lambda>(c, s). (case credentialInputFromChain h c of
                      Inl e \<Rightarrow> Inl e
                    | Inr i \<Rightarrow> Inr (i, s))) cands = Inr (zip rest (map snd cands))"
        by blast
      then show "mapE (\<lambda>(c, s). (case credentialInputFromChain h c of
                      Inl e \<Rightarrow> Inl e
                    | Inr i \<Rightarrow> Inr (i, s))) (cand # cands) = Inr content"
        by (simp add: cand Inr b inputs ji)
    qed
  qed
qed

lemma decode_single:
  "mapE (credentialInputFromChain h) calls = Inr inputs
   \<longleftrightarrow> list_all2 (decodesTo h) (map (\<lambda>c. (c, origin)) calls) inputs"
  by (simp add: mapE_Inr_iff decodesTo_def list_all2_map1)

lemma zip_same_origin:
  "length inputs = length calls \<Longrightarrow>
     zip inputs (map snd (map (\<lambda>c. (c, origin)) calls)) = map (\<lambda>i. (i, origin)) inputs"
proof (induction inputs arbitrary: calls)
  case Nil
  then show ?case by simp
next
  case (Cons i inputs)
  then show ?case by (cases calls) auto
qed

lemma find_same_origin:
  "find (matches h credentialId) (map (\<lambda>i. (i, origin)) xs) =
     map_option (\<lambda>i. (i, origin)) (find (\<lambda>c. getIdForCredential h c origin = credentialId) xs)"
  by (induction xs) (auto simp: matches_def)

lemma matches_split: "(\<lambda>(c, s). getIdForCredential h c s = credentialId) = matches h credentialId"
  by (auto simp: matches_def fun_eq_iff)

lemma batchCalls_did [simp]: "batchCalls (DidSubmitDidCall d inner) = None"
  by (simp add: batchCalls_def)

lemma candidateCalls_did:
  "candidateCalls h (DidSubmitDidCall d inner) =
     Some (map (\<lambda>c. (c, didFromChain h d))
             (extractPublicCredentialCreationCallsFromDidCall inner))"
  by (simp add: candidateCalls_def)

lemma candidateCalls_batch:
  assumes "batchCalls ext = Some cs"
  shows "candidateCalls h ext =
     Some (concat (map (\<lambda>(d, inner).
                      map (\<lambda>c. (c, didFromChain h d))
                        (extractPublicCredentialCreationCallsFromDidCall inner))
                    (concat (map extractDidCallsFromBatchCall cs))))"
  using assms by (cases ext) (simp_all add: candidateCalls_def batchCalls_def)

lemma candidateCalls_other:
  assumes "batchCalls ext = None" and "\<And>d inner. ext \<noteq> DidSubmitDidCall d inner"
  shows "candidateCalls h ext = None"
  using assms by (cases ext) (auto simp: candidateCalls_def batchCalls_def)

lemma selectCredential_did:
  "selectCredential h credentialId (DidSubmitDidCall d inner) =
     selectFromDidCall h credentialId d inner"
  by (simp add: selectCredential_def)

lemma selectCredential_batch:
  assumes "batchCalls ext = Some cs"
  shows "selectCredential h credentialId ext = selectFromBatch h credentialId cs"
  using assms by (cases ext) (simp_all add: selectCredential_def batchCalls_def)

lemma selectCredential_other:
  assumes "batchCalls ext = None" and "\<And>d inner. ext \<noteq> DidSubmitDidCall d inner"
  shows "selectCredential h credentialId ext = Inl PublicCredentialError"
  using assms by (cases ext) (auto simp: selectCredential_def batchCalls_def)

lemma extrinsic_kinds:
  obtains (did) d inner where "ext = DidSubmitDidCall d inner"
  | (batch) cs where "batchCalls ext = Some cs"
  | (other) "batchCalls ext = None" and "\<And>d inner. ext \<noteq> DidSubmitDidCall d inner"
  by (cases ext) (auto simp: batchCalls_def)

lemma selectCredential_decoded:
  assumes "candidateCalls h ext = Some cands"
      and "list_all2 (decodesTo h) cands inputs"
  shows "\<exists>sub. selectCredential h credentialId ext =
           Inr (map_option fst (lastMatch h credentialId cands inputs), sub)
         \<and> (lastMatch h credentialId cands inputs \<noteq> None \<longrightarrow>
              sub = map_option snd (lastMatch h credentialId cands inputs))"
proof (cases ext rule: extrinsic_kinds)
  case (did d inner)
  let ?calls = "extractPublicCredentialCreationCallsFromDidCall inner"
  let ?origin = "didFromChain h d"
  from assms(1) have cands: "cands = map (\<lambda>c. (c, ?origin)) ?calls"
    by (simp add: candidateCalls_did did)
  from assms(2) have dec: "mapE (credentialInputFromChain h) ?calls = Inr inputs"
    by (simp add: decode_single [of h ?calls inputs ?origin] cands)
  from assms(2) have len: "length inputs = length ?calls"
    by (auto simp: cands dest: list_all2_lengthD)
  have lm: "lastMatch h credentialId cands inputs =
          map_option (\<lambda>i. (i, ?origin))
            (find (\<lambda>c. getIdForCredential h c ?origin = credentialId) (rev inputs))"
    unfolding lastMatch_def cands zip_same_origin [OF len]
    by (simp add: rev_map find_same_origin)
  have sel: "selectCredential h credentialId ext =
          Inr (find (\<lambda>c. getIdForCredential h c ?origin = credentialId) (rev inputs),
               Some ?origin)"
    by (simp add: did selectCredential_did selectFromDidCall_def dec Let_def)
  show ?thesis
    unfolding sel lm
    by (cases "find (\<lambda>c. getIdForCredential h c ?origin = credentialId) (rev inputs)")
       simp_all
next
  case (batch cs)
  from assms(1) have cands:
    "cands = concat (map (\<lambda>(d, inner).
                      map (\<lambda>c. (c, didFromChain h d))
                        (extractPublicCredentialCreationCallsFromDidCall inner))
                    (concat (map extractDidCallsFromBatchCall cs)))"
    by (simp add: candidateCalls_batch [OF batch])
  from assms(2) have dec: "mapE (\<lambda>(c, s). (case credentialInputFromChain h c of
                      Inl e \<Rightarrow> Inl e
                    | Inr i \<Rightarrow> Inr (i, s))) cands = Inr (zip inputs (map snd cands))"
    using decode_pairs [of h cands "zip inputs (map snd cands)"] by blast
  show ?thesis
    unfolding selectCredential_batch [OF batch] selectFromBatch_def Let_def cands [symmetric] dec
    by (simp add: lastMatch_def matches_split)
next
  case other
  with assms(1) show ?thesis
    by (simp add: candidateCalls_other)
qed

lemma selectCredential_Inr:
  assumes "selectCredential h credentialId ext = Inr r"
  shows "\<exists>cands inputs. candidateCalls h ext = Some cands
           \<and> list_all2 (decodesTo h) cands inputs"
proof (cases ext rule: extrinsic_kinds)
  case (did d inner)
  let ?calls = "extractPublicCredentialCreationCallsFromDidCall inner"
  from assms have "selectFromDidCall h credentialId d inner = Inr r"
    by (simp add: did selectCredential_did)
  then obtain inputs where "mapE (credentialInputFromChain h) ?calls = Inr inputs"
    by (cases "mapE (credentialInputFromChain h) ?calls")
       (simp_all add: selectFromDidCall_def)
  then have "list_all2 (decodesTo h) (map (\<lambda>c. (c, didFromChain h d)) ?calls) inputs"
    by (simp add: decode_single [of h ?calls inputs "didFromChain h d"])
  then show ?thesis
    unfolding did candidateCalls_did by blast
next
  case (batch cs)
  let ?cands = "concat (map (\<lambda>(d, inner).
                      map (\<lambda>c. (c, didFromChain h d))
                        (extractPublicCredentialCreationCallsFromDidCall inner))
                    (concat (map extractDidCallsFromBatchCall cs)))"
  let ?g = "\<lambda>(c, s). (case credentialInputFromChain h c of
                      Inl e \<Rightarrow> Inl e
                    | Inr i \<Rightarrow> Inr (i, s))"
  from assms have "selectFromBatch h credentialId cs = Inr r"
    by (simp add: selectCredential_batch [OF batch])
  then obtain content where "mapE ?g ?cands = Inr content"
    by (cases "mapE ?g ?cands") (simp_all add: selectFromBatch_def)
  then obtain inputs where "list_all2 (decodesTo h) ?cands inputs"
    using decode_pairs [of h ?cands content] by blast
  then show ?thesis
    unfolding candidateCalls_batch [OF batch] by blast
next
  case other
  with assms show ?thesis
    by (simp add: selectCredential_other)
qed

text \<open>The outcome of \<open>credentialFromChain\<close> once the candidates are decoded.\<close>

lemma credentialFromChain_decoded:
  assumes "getBlockByNumber h (ce_blockNumber entry) = Inr extrinsics"
      and "winningExtrinsic credentialId extrinsics = Some ext"
      and "candidateCalls h ext = Some cands"
      and "list_all2 (decodesTo h) cands inputs"
  shows "credentialFromChain h credentialId (Some entry) =
           (case lastMatch h credentialId cands inputs of
              None \<Rightarrow> Inl PublicCredentialError
            | Some cs \<Rightarrow> Inr (credentialOf h entry cs))"
proof -
  from selectCredential_decoded [OF assms(3,4), of credentialId] obtain sub where
    sel: "selectCredential h credentialId ext =
            Inr (map_option fst (lastMatch h credentialId cands inputs), sub)"
    and sub: "lastMatch h credentialId cands inputs \<noteq> None \<longrightarrow>
              sub = map_option snd (lastMatch h credentialId cands inputs)"
    by blast
  show ?thesis
  proof (cases "lastMatch h credentialId cands inputs")
    case None
    then show ?thesis
      by (simp add: credentialFromChain_def retrieve_winning assms(1,2) sel)
  next
    case (Some cs)
    with sub have "sub = Some (snd cs)" by simp
    with Some show ?thesis
      by (simp add: credentialFromChain_def retrieve_winning assms(1,2) sel credentialOf_def)
  qed
qed

lemma credentialFromChain_Inr:
  assumes "credentialFromChain h credentialId publicCredentialEntry = Inr cred"
  shows "\<exists>entry extrinsics ext cands inputs cs.
           publicCredentialEntry = Some entry
         \<and> getBlockByNumber h (ce_blockNumber entry) = Inr extrinsics
         \<and> winningExtrinsic credentialId extrinsics = Some ext
         \<and> candidateCalls h ext = Some cands
         \<and> list_all2 (decodesTo h) cands inputs
         \<and> lastMatch h credentialId cands inputs = Some cs
         \<and> cred = credentialOf h entry cs"
proof -
  from assms obtain entry where e: "publicCredentialEntry = Some entry"
    by (cases publicCredentialEntry) (simp_all add: credentialFromChain_def)
  from assms obtain extrinsics where
    b: "getBlockByNumber h (ce_blockNumber entry) = Inr extrinsics"
    by (cases "getBlockByNumber h (ce_blockNumber entry)")
       (simp_all add: credentialFromChain_def e retrieve_winning)
  from assms obtain ext where w: "winningExtrinsic credentialId extrinsics = Some ext"
    by (cases "winningExtrinsic credentialId extrinsics")
       (simp_all add: credentialFromChain_def e retrieve_winning b)
  from assms obtain r where s: "selectCredential h credentialId ext = Inr r"
    by (cases "selectCredential h credentialId ext")
       (simp_all add: credentialFromChain_def e retrieve_winning b w)
  from selectCredential_Inr [OF s] obtain cands inputs where
    c: "candidateCalls h ext = Some cands" and d: "list_all2 (decodesTo h) cands inputs"
    by blast
  from assms have "(case lastMatch h credentialId cands inputs of
              None \<Rightarrow> Inl PublicCredentialError
            | Some cs \<Rightarrow> Inr (credentialOf h entry cs)) = Inr cred"
    unfolding e credentialFromChain_decoded [OF b w c d] .
  then obtain cs where "lastMatch h credentialId cands inputs = Some cs"
      and "cred = credentialOf h entry cs"
    by (cases "lastMatch h credentialId cands inputs") simp_all
  with e b w c d show ?thesis by blast
qed

lemma lastMatch_last:
  "lastMatch h credentialId cands inputs =
     (if filter (matches h credentialId) (zip inputs (map snd cands)) = [] then None
      else Some (last (filter (matches h credentialId) (zip inputs (map snd cands)))))"
  by (simp add: lastMatch_def find_rev_last)

lemma lastMatch_matches:
  assumes "lastMatch h credentialId cands inputs = Some cs"
  shows "matches h credentialId cs" and "cs \<in> set (zip inputs (map snd cands))"
proof -
  let ?ms = "filter (matches h credentialId) (zip inputs (map snd cands))"
  from assms have ne: "?ms \<noteq> []" and cs: "cs = last ?ms"
    by (auto simp: lastMatch_last split: if_splits)
  from ne have "last ?ms \<in> set ?ms" by (rule last_in_set)
  then show "matches h credentialId cs" and "cs \<in> set (zip inputs (map snd cands))"
    by (auto simp: cs)
qed

lemma decoded_candidate:
  assumes "list_all2 (decodesTo h) cands inputs"
      and "(i, s) \<in> set (zip inputs (map snd cands))"
  shows "\<exists>cand \<in> set cands. decodesTo h cand i \<and> snd cand = s"
  using assms
proof (induction cands inputs rule: list_all2_induct)
  case Nil
  then show ?case by simp
next
  case (Cons cand cands j inputs)
  then show ?case by auto
qed

text \<open>
  C10. Whenever \<open>credentialFromChain\<close> returns a credential, a commitment entry was
  given, the \<open>id\<close> of the credential is the requested \<open>credentialId\<close>, and its
  \<open>blockNumber\<close> and \<open>revoked\<close> are those of the entry.
\<close>

theorem credentialFromChain_postcondition:
  assumes "credentialFromChain h credentialId publicCredentialEntry = Inr cred"
  shows "cred_id cred = credentialId
         \<and> (\<exists>entry. publicCredentialEntry = Some entry
               \<and> blockNumber cred = ce_blockNumber entry
               \<and> revoked cred = ce_revoked entry)"
proof -
  from credentialFromChain_Inr [OF assms] obtain entry cands inputs cs where
    e: "publicCredentialEntry = Some entry"
    and l: "lastMatch h credentialId cands inputs = Some cs"
    and c: "cred = credentialOf h entry cs"
    by blast
  from lastMatch_matches(1) [OF l] have "getIdForCredential h (fst cs) (snd cs) = credentialId"
    by (simp add: matches_def)
  with e c show ?thesis
    by (simp add: credentialOf_def)
qed

lemmas credential_defs =
  credentialFromChain_def retrievePublicCredentialCreationExtrinsicFromBlock_def
  selectCredential_def selectFromDidCall_def selectFromBatch_def batchCalls_def
  extractDidCallsFromBatchCall_def extractPublicCredentialCreationCallsFromDidCall_def
  List.map_filter_def addedCredential_def didCall_def credentialInputFromChain_def
  storesCredential_def winningExtrinsic_def candidateCalls_def
  sample_credential_helpers_def sample_validateAssetUri_def sample_digest_def
  book_decode_def credential_first_def credential_second_def credential_garbage_def
  sample_credentialId_def sample_stored_def sample_entry_def Let_def

lemma sample_reconstruction:
  "credentialFromChain (sample_credential_helpers block_twice) sample_credentialId
       (Some sample_entry) =
     Inr \<lparr> claims = [(''name'', ''second'')],
           cTypeHash = ''0x3291'',
           delegationId = None,
           subject = ''did:asset:eip155:1.erc20:0x6b17'',
           attester = ''did:kilt:full:4pAuth'',
           cred_id = ''0x3291/did:asset:eip155:1.erc20:0x6b17/did:kilt:full:4pAuth'',
           blockNumber = 7,
           revoked = False \<rparr>"
  by (simp add: credential_defs block_twice_def)

theorem credentialFromChain_postcondition_witness:
  "cred_id (projr (credentialFromChain (sample_credential_helpers block_twice)
                     sample_credentialId (Some sample_entry))) = sample_credentialId
   \<and> blockNumber (projr (credentialFromChain (sample_credential_helpers block_twice)
                     sample_credentialId (Some sample_entry))) = ce_blockNumber sample_entry
   \<and> revoked (projr (credentialFromChain (sample_credential_helpers block_twice)
                     sample_credentialId (Some sample_entry))) = ce_revoked sample_entry"
  using credentialFromChain_postcondition [OF sample_reconstruction]
  by (simp add: sample_reconstruction)

text \<open>
  C3. Tie-break. Let the winning extrinsic of the block be a DID-authorized call or a
  batch, let every extracted candidate (every "add public credential" call with the
  DID that authorized it, in call order) decode to a credential input, and let at
  least one decoded candidate have the requested identifier. Then
  \<open>credentialFromChain\<close> returns the credential built from the last such candidate in
  call order: its content, and its authorizing DID as attester. The hypothesis on
  decoding is needed: all candidates are decoded before the selection.
\<close>

theorem credentialFromChain_last_candidate:
  assumes "getBlockByNumber h (ce_blockNumber entry) = Inr extrinsics"
      and "winningExtrinsic credentialId extrinsics = Some ext"
      and "candidateCalls h ext = Some cands"
      and "list_all2 (decodesTo h) cands inputs"
      and "filter (matches h credentialId) (zip inputs (map snd cands)) \<noteq> []"
  shows "\<exists>i s. last (filter (matches h credentialId) (zip inputs (map snd cands))) = (i, s)
           \<and> credentialFromChain h credentialId (Some entry) =
               Inr \<lparr> claims = claims i,
                     cTypeHash = cTypeHash i,
                     delegationId = delegationId i,
                     subject = subject i,
                     attester = s,
                     cred_id = credentialId,
                     blockNumber = ce_blockNumber entry,
                     revoked = ce_revoked entry \<rparr>"
proof -
  let ?ms = "filter (matches h credentialId) (zip inputs (map snd cands))"
  obtain i s where eq: "last ?ms = (i, s)" by (cases "last ?ms")
  from assms(5) have l: "lastMatch h credentialId cands inputs = Some (i, s)"
    by (simp add: lastMatch_last eq)
  from lastMatch_matches(1) [OF l] have m: "getIdForCredential h i s = credentialId"
    by (simp add: matches_def)
  have "credentialFromChain h credentialId (Some entry) = Inr (credentialOf h entry (i, s))"
    by (simp add: credentialFromChain_decoded [OF assms(1-4)] l)
  with eq m show ?thesis
    by (simp add: credentialOf_def)
qed

lemma sample_first_decodes:
  "credentialInputFromChain (sample_credential_helpers b) credential_first =
     Inr \<lparr> claims = [(''name'', ''first'')], cTypeHash = ''0x3291'', delegationId = None,
           subject = ''did:asset:eip155:1.erc20:0x6b17'' \<rparr>"
  by (simp add: credentialInputFromChain_def sample_credential_helpers_def
        sample_validateAssetUri_def book_decode_def credential_first_def)

lemma sample_second_decodes:
  "credentialInputFromChain (sample_credential_helpers b) credential_second =
     Inr \<lparr> claims = [(''name'', ''second'')], cTypeHash = ''0x3291'', delegationId = None,
           subject = ''did:asset:eip155:1.erc20:0x6b17'' \<rparr>"
  by (simp add: credentialInputFromChain_def sample_credential_helpers_def
        sample_validateAssetUri_def book_decode_def credential_second_def)

theorem credentialFromChain_last_candidate_witness:
  "credentialFromChain (sample_credential_helpers block_twice) sample_credentialId
       (Some sample_entry) =
     Inr \<lparr> claims = [(''name'', ''second'')],
           cTypeHash = ''0x3291'',
           delegationId = None,
           subject = ''did:asset:eip155:1.erc20:0x6b17'',
           attester = ''did:kilt:full:4pAuth'',
           cred_id = sample_credentialId,
           blockNumber = 7,
           revoked = False \<rparr>"
proof -
  let ?h = "sample_credential_helpers block_twice"
  let ?ext = "UtilityBatch
                 [DidSubmitDidCall ''4pAuth'' (PublicCredentialsAdd credential_first),
                  OtherCall ''balances.transfer'',
                  UtilityBatchAll
                    [DidSubmitDidCall ''4pAuth''
                       (UtilityBatch [PublicCredentialsAdd credential_second])]]"
  let ?cands = "[(credential_first, ''did:kilt:full:4pAuth''),
                 (credential_second, ''did:kilt:full:4pAuth'')]"
  let ?inputs = "[\<lparr> claims = [(''name'', ''first'')], cTypeHash = ''0x3291'',
                     delegationId = None,
                     subject = ''did:asset:eip155:1.erc20:0x6b17'' \<rparr>,
                  \<lparr> claims = [(''name'', ''second'')], cTypeHash = ''0x3291'',
                     delegationId = None,
                     subject = ''did:asset:eip155:1.erc20:0x6b17'' \<rparr>]"
  have b: "getBlockByNumber ?h (ce_blockNumber sample_entry) =
             Inr [\<lparr> tx_extrinsic = ?ext,
                     tx_events = [OtherEvent ''system.ExtrinsicSuccess'', sample_stored],
                     tx_dispatchError = None \<rparr>]"
    by (simp add: sample_credential_helpers_def block_twice_def)
  have w: "winningExtrinsic sample_credentialId
             [\<lparr> tx_extrinsic = ?ext,
                tx_events = [OtherEvent ''system.ExtrinsicSuccess'', sample_stored],
                tx_dispatchError = None \<rparr>] = Some ?ext"
    by (simp add: winningExtrinsic_def storesCredential_def sample_stored_def)
  have c: "candidateCalls ?h ?ext = Some ?cands"
    by (simp add: candidateCalls_def batchCalls_def extractDidCallsFromBatchCall_def
          extractPublicCredentialCreationCallsFromDidCall_def List.map_filter_def
          addedCredential_def didCall_def sample_credential_helpers_def)
  have d: "list_all2 (decodesTo ?h) ?cands ?inputs"
    by (simp add: decodesTo_def sample_first_decodes sample_second_decodes)
  have f: "filter (matches ?h sample_credentialId) (zip ?inputs (map snd ?cands)) =
             zip ?inputs (map snd ?cands)"
    by (simp add: matches_def sample_credential_helpers_def sample_digest_def
          sample_credentialId_def)
  have n: "filter (matches ?h sample_credentialId) (zip ?inputs (map snd ?cands)) \<noteq> []"
    unfolding f by simp
  from credentialFromChain_last_candidate [OF b w c d n] show ?thesis
    unfolding f by (simp add: sample_entry_def)
qed

theorem credentialFromChain_last_candidate_counterexample:
  "getBlockByNumber (sample_credential_helpers block_twice_garbage) (ce_blockNumber sample_entry) =
     Inr [\<lparr> tx_extrinsic =
               UtilityForceBatch
                 [DidSubmitDidCall ''4pAuth'' (PublicCredentialsAdd credential_first),
                  DidSubmitDidCall ''4pAuth'' (PublicCredentialsAdd credential_second),
                  DidSubmitDidCall ''4pAuth'' (PublicCredentialsAdd credential_garbage)],
             tx_events = [sample_stored],
             tx_dispatchError = None \<rparr>]
   \<and> credentialInputFromChain (sample_credential_helpers block_twice_garbage)
         credential_first =
       Inr \<lparr> claims = [(''name'', ''first'')], cTypeHash = ''0x3291'', delegationId = None,
             subject = ''did:asset:eip155:1.erc20:0x6b17'' \<rparr>
   \<and> credentialInputFromChain (sample_credential_helpers block_twice_garbage)
         credential_second =
       Inr \<lparr> claims = [(''name'', ''second'')], cTypeHash = ''0x3291'', delegationId = None,
             subject = ''did:asset:eip155:1.erc20:0x6b17'' \<rparr>
   \<and> getIdForCredential (sample_credential_helpers block_twice_garbage)
         \<lparr> claims = [(''name'', ''first'')], cTypeHash = ''0x3291'', delegationId = None,
           subject = ''did:asset:eip155:1.erc20:0x6b17'' \<rparr> ''did:kilt:full:4pAuth'' =
       sample_credentialId
   \<and> getIdForCredential (sample_credential_helpers block_twice_garbage)
         \<lparr> claims = [(''name'', ''second'')], cTypeHash = ''0x3291'', delegationId = None,
           subject = ''did:asset:eip155:1.erc20:0x6b17'' \<rparr> ''did:kilt:full:4pAuth'' =
       sample_credentialId
   \<and> credentialFromChain (sample_credential_helpers block_twice_garbage) sample_credentialId
         (Some sample_entry) = Inl (ExternalError ''InvalidDidFormat'')"
  by (simp add: credential_defs block_twice_garbage_def)

text \<open>
  C4. Negative reconstruction. Let the block of the entry be retrieved. When the block
  has no successful extrinsic with a \<open>CredentialStored\<close> event for the identifier, or
  its winning extrinsic is neither a DID-authorized call nor a batch, or every
  extracted candidate decodes and none has the requested identifier,
  \<open>credentialFromChain\<close> fails with \<open>PublicCredentialError\<close>. When no candidate that
  decodes has the requested identifier, it fails (it returns no credential), whatever
  the other candidates are.
\<close>

theorem credentialFromChain_negative:
  assumes "getBlockByNumber h (ce_blockNumber entry) = Inr extrinsics"
  shows "(winningExtrinsic credentialId extrinsics = None \<longrightarrow>
            credentialFromChain h credentialId (Some entry) = Inl PublicCredentialError)
       \<and> (\<forall>ext. winningExtrinsic credentialId extrinsics = Some ext
                 \<and> candidateCalls h ext = None \<longrightarrow>
            credentialFromChain h credentialId (Some entry) = Inl PublicCredentialError)
       \<and> (\<forall>ext cands inputs.
              winningExtrinsic credentialId extrinsics = Some ext
            \<and> candidateCalls h ext = Some cands
            \<and> list_all2 (decodesTo h) cands inputs
            \<and> filter (matches h credentialId) (zip inputs (map snd cands)) = [] \<longrightarrow>
            credentialFromChain h credentialId (Some entry) = Inl PublicCredentialError)
       \<and> (\<forall>ext cands.
              winningExtrinsic credentialId extrinsics = Some ext
            \<and> candidateCalls h ext = Some cands
            \<and> (\<forall>cand \<in> set cands. \<forall>i. decodesTo h cand i \<longrightarrow>
                   getIdForCredential h i (snd cand) \<noteq> credentialId) \<longrightarrow>
            (\<exists>e. credentialFromChain h credentialId (Some entry) = Inl e))"
proof (intro conjI allI impI)
  assume "winningExtrinsic credentialId extrinsics = None"
  then show "credentialFromChain h credentialId (Some entry) = Inl PublicCredentialError"
    by (simp add: credentialFromChain_def retrieve_winning assms)
next
  fix ext
  assume a: "winningExtrinsic credentialId extrinsics = Some ext \<and> candidateCalls h ext = None"
  have "selectCredential h credentialId ext = Inl PublicCredentialError"
  proof (cases ext rule: extrinsic_kinds)
    case (did d inner)
    with a show ?thesis by (simp add: candidateCalls_did)
  next
    case (batch cs)
    with a show ?thesis by (simp add: candidateCalls_batch)
  next
    case other
    then show ?thesis by (simp add: selectCredential_other)
  qed
  with a show "credentialFromChain h credentialId (Some entry) = Inl PublicCredentialError"
    by (simp add: credentialFromChain_def retrieve_winning assms)
next
  fix ext cands inputs
  assume a: "winningExtrinsic credentialId extrinsics = Some ext
            \<and> candidateCalls h ext = Some cands
            \<and> list_all2 (decodesTo h) cands inputs
            \<and> filter (matches h credentialId) (zip inputs (map snd cands)) = []"
  then have w: "winningExtrinsic credentialId extrinsics = Some ext"
    and c: "candidateCalls h ext = Some cands"
    and d: "list_all2 (decodesTo h) cands inputs"
    and n: "lastMatch h credentialId cands inputs = None"
    by (simp_all add: lastMatch_last)
  show "credentialFromChain h credentialId (Some entry) = Inl PublicCredentialError"
    by (simp add: credentialFromChain_decoded [OF assms w c d] n)
next
  fix ext cands
  assume a: "winningExtrinsic credentialId extrinsics = Some ext
            \<and> candidateCalls h ext = Some cands
            \<and> (\<forall>cand \<in> set cands. \<forall>i. decodesTo h cand i \<longrightarrow>
                   getIdForCredential h i (snd cand) \<noteq> credentialId)"
  show "\<exists>e. credentialFromChain h credentialId (Some entry) = Inl e"
  proof (cases "credentialFromChain h credentialId (Some entry)")
    case (Inl e)
    then show ?thesis by blast
  next
    case (Inr cred)
    from credentialFromChain_Inr [OF Inr] obtain extrinsics' ext' cands' inputs cs where
      b': "getBlockByNumber h (ce_blockNumber entry) = Inr extrinsics'"
      and w': "winningExtrinsic credentialId extrinsics' = Some ext'"
      and c': "candidateCalls h ext' = Some cands'"
      and d': "list_all2 (decodesTo h) cands' inputs"
      and l': "lastMatch h credentialId cands' inputs = Some cs"
      by auto
    from b' assms have "extrinsics' = extrinsics" by simp
    with w' a have "ext' = ext" by simp
    with c' a have cs': "cands' = cands" by simp
    obtain i s where cs: "cs = (i, s)" by (cases cs)
    from lastMatch_matches [OF l'] have m: "getIdForCredential h i s = credentialId"
      and mem: "(i, s) \<in> set (zip inputs (map snd cands'))"
      by (simp_all add: cs matches_def)
    from decoded_candidate [OF d' mem] obtain cand where
      "cand \<in> set cands" "decodesTo h cand i" "snd cand = s"
      by (auto simp: cs')
    with a m show ?thesis by blast
  qed
qed

theorem credentialFromChain_negative_witness:
  "credentialFromChain (sample_credential_helpers block_unrelated) sample_credentialId
       (Some sample_entry) = Inl PublicCredentialError
   \<and> credentialFromChain (sample_credential_helpers block_hidden) sample_credentialId
       (Some sample_entry) = Inl PublicCredentialError"
proof -
  let ?u = "sample_credential_helpers block_unrelated"
  let ?k = "sample_credential_helpers block_hidden"
  let ?ext = "UtilityBatch [OtherCall ''proxy.proxy'']"
  have bu: "getBlockByNumber ?u (ce_blockNumber sample_entry) =
              Inr [\<lparr> tx_extrinsic =
                        DidSubmitDidCall ''4pAuth'' (PublicCredentialsAdd credential_first),
                      tx_events = [OtherEvent ''system.ExtrinsicFailed''],
                      tx_dispatchError = Some ''publicCredentials.AlreadyAttested'' \<rparr>]"
    by (simp add: sample_credential_helpers_def block_unrelated_def)
  have wu: "winningExtrinsic sample_credentialId
              [\<lparr> tx_extrinsic =
                    DidSubmitDidCall ''4pAuth'' (PublicCredentialsAdd credential_first),
                  tx_events = [OtherEvent ''system.ExtrinsicFailed''],
                  tx_dispatchError = Some ''publicCredentials.AlreadyAttested'' \<rparr>] = None"
    by (simp add: winningExtrinsic_def)
  have bk: "getBlockByNumber ?k (ce_blockNumber sample_entry) =
              Inr [\<lparr> tx_extrinsic = ?ext, tx_events = [sample_stored],
                      tx_dispatchError = None \<rparr>]"
    by (simp add: sample_credential_helpers_def block_hidden_def)
  have wk: "winningExtrinsic sample_credentialId
              [\<lparr> tx_extrinsic = ?ext, tx_events = [sample_stored],
                  tx_dispatchError = None \<rparr>] = Some ?ext"
    by (simp add: winningExtrinsic_def storesCredential_def sample_stored_def)
  have ck: "candidateCalls ?k ?ext = Some []"
    by (simp add: candidateCalls_def batchCalls_def extractDidCallsFromBatchCall_def
          List.map_filter_def didCall_def)
  have dk: "list_all2 (decodesTo ?k) [] []" by simp
  have nk: "filter (matches ?k sample_credentialId) (zip [] (map snd [])) = []" by simp
  from credentialFromChain_negative [OF bu, of sample_credentialId] wu
  have one: "credentialFromChain ?u sample_credentialId (Some sample_entry) =
               Inl PublicCredentialError"
    by blast
  from credentialFromChain_negative [OF bk, of sample_credentialId] wk ck dk nk
  have two: "credentialFromChain ?k sample_credentialId (Some sample_entry) =
               Inl PublicCredentialError"
    by blast
  from one two show ?thesis by simp
qed

theorem credentialFromChain_negative_counterexample:
  "getBlockByNumber (sample_credential_helpers block_garbage) (ce_blockNumber sample_entry) =
     Inr [\<lparr> tx_extrinsic =
               UtilityForceBatch
                 [OtherCall ''proxy.proxy'',
                  DidSubmitDidCall ''4pAuth'' (PublicCredentialsAdd credential_garbage)],
             tx_events = [sample_stored],
             tx_dispatchError = None \<rparr>]
   \<and> candidateCalls (sample_credential_helpers block_garbage)
         (UtilityForceBatch
            [OtherCall ''proxy.proxy'',
             DidSubmitDidCall ''4pAuth'' (PublicCredentialsAdd credential_garbage)]) =
       Some [(credential_garbage, ''did:kilt:full:4pAuth'')]
   \<and> credentialInputFromChain (sample_credential_helpers block_garbage) credential_garbage =
       Inl (ExternalError ''InvalidDidFormat'')
   \<and> credentialFromChain (sample_credential_helpers block_garbage) sample_credentialId
         (Some sample_entry) = Inl (ExternalError ''InvalidDidFormat'')
   \<and> credentialFromChain (sample_credential_helpers block_garbage) sample_credentialId
         (Some sample_entry) \<noteq> Inl PublicCredentialError"
  by (simp add: credential_defs block_garbage_def)


section \<open>Round trip of the light DID codec\<close>

lemma encoding_round_trip:
  assumes "verificationKeyTypeToLightDidEncoding keyType = Some c"
  shows "keyTypeOfEncoding (Some c) = Some keyType"
  using assms
  by (auto simp: verificationKeyTypeToLightDidEncoding_def keyTypeOfEncoding_def
        lightDidEncodingToVerificationKeyType_def split: if_splits)

lemma validate_success:
  assumes "validateCreateDocumentInput h x = Inr u"
  shows "\<exists>keyType publicKey c.
           decodeMultikeyVerificationMethod h (in_authentication x) = Inr (keyType, publicKey)
         \<and> verificationKeyTypeToLightDidEncoding keyType = Some c"
  using assms
  by (auto simp: validateCreateDocumentInput_def split: sum.splits option.splits prod.splits)

text \<open>
  A successful creation, taken apart: the input was accepted, and the document is
  assembled from the URI and the encoded keys.
\<close>

lemma create_success:
  assumes "createLightDidDocument h x = Inr doc"
      and "decodeMultikeyVerificationMethod h (in_authentication x) = Inr (keyType, publicKey)"
      and "getAddressByVerificationMethod h (in_authentication x) = Inr address"
  shows "validateCreateDocumentInput h x = Inr ()"
    and "\<exists>c. verificationKeyTypeToLightDidEncoding keyType = Some c"
    and "doc_id doc = lightDidUri (verificationKeyTypeToLightDidEncoding keyType) address
                        (serializeAdditionalLightDidDetails h (in_keyAgreement x) (in_service x))"
    and "\<exists>authVm. encodeVerificationMethodToMultiKey h (doc_id doc) authenticationKeyId
                     (keyType, publicKey) = Inr authVm
           \<and> addKeyAgreement h (doc_id doc) (in_keyAgreement x) authVm
                \<lparr> doc_id = doc_id doc,
                  authentication = Some [authenticationKeyId],
                  keyAgreement = None,
                  assertionMethod = None,
                  capabilityDelegation = None,
                  verificationMethod = Some [authVm],
                  service = in_service x \<rparr> = Inr doc"
proof -
  from assms(1) show v: "validateCreateDocumentInput h x = Inr ()"
    by (cases "validateCreateDocumentInput h x") (simp_all add: createLightDidDocument_def)
  from validate_success [OF v] assms(2)
  show "\<exists>c. verificationKeyTypeToLightDidEncoding keyType = Some c"
    by auto
  let ?uri = "lightDidUri (verificationKeyTypeToLightDidEncoding keyType) address
                (serializeAdditionalLightDidDetails h (in_keyAgreement x) (in_service x))"
  from assms obtain authVm where
    e: "encodeVerificationMethodToMultiKey h ?uri authenticationKeyId (keyType, publicKey)
          = Inr authVm"
    by (cases "encodeVerificationMethodToMultiKey h ?uri authenticationKeyId
                 (keyType, publicKey)")
       (simp_all add: createLightDidDocument_def v Let_def)
  from assms e have a: "addKeyAgreement h ?uri (in_keyAgreement x) authVm
                \<lparr> doc_id = ?uri,
                  authentication = Some [authenticationKeyId],
                  keyAgreement = None,
                  assertionMethod = None,
                  capabilityDelegation = None,
                  verificationMethod = Some [authVm],
                  service = in_service x \<rparr> = Inr doc"
    by (simp add: createLightDidDocument_def v Let_def)
  then show u: "doc_id doc = ?uri"
    by (auto simp: addKeyAgreement_def split: option.splits sum.splits)
  from e a show "\<exists>authVm. encodeVerificationMethodToMultiKey h (doc_id doc) authenticationKeyId
                     (keyType, publicKey) = Inr authVm
           \<and> addKeyAgreement h (doc_id doc) (in_keyAgreement x) authVm
                \<lparr> doc_id = doc_id doc,
                  authentication = Some [authenticationKeyId],
                  keyAgreement = None,
                  assertionMethod = None,
                  capabilityDelegation = None,
                  verificationMethod = Some [authVm],
                  service = in_service x \<rparr> = Inr doc"
    unfolding u by blast
qed

text \<open>
  Creation reads the authentication key only through its decoded form and its address
  once the key type is supported.
\<close>

lemma create_same_key:
  assumes "decodeMultikeyVerificationMethod h a = Inr (keyType, publicKey)"
      and "decodeMultikeyVerificationMethod h a' = Inr (keyType, publicKey)"
      and "getAddressByVerificationMethod h a = getAddressByVerificationMethod h a'"
      and "verificationKeyTypeToLightDidEncoding keyType = Some c"
  shows "createLightDidDocument h
           \<lparr> in_authentication = a, in_keyAgreement = ka, in_service = svc \<rparr> =
         createLightDidDocument h
           \<lparr> in_authentication = a', in_keyAgreement = ka, in_service = svc \<rparr>"
proof -
  let ?x = "\<lparr> in_authentication = a, in_keyAgreement = ka, in_service = svc \<rparr>"
  let ?x' = "\<lparr> in_authentication = a', in_keyAgreement = ka, in_service = svc \<rparr>"
  have v: "validateCreateDocumentInput h ?x = validateCreateDocumentInput h ?x'"
    by (simp add: validateCreateDocumentInput_def assms cong: sum.case_cong option.case_cong)
  show ?thesis
    by (cases "validateCreateDocumentInput h ?x'")
       (simp_all add: createLightDidDocument_def v assms Let_def
          cong: sum.case_cong option.case_cong)
qed

lemma deserialize_serialize_service:
  assumes "''#'' @ fragmentIdToChain h (se_id s) = se_id s"
  shows "deserializeService (serializeService h s) = s"
  using assms
  by (cases s) (auto simp: deserializeService_def serializeService_def split: option.splits)

lemma deserialize_serialize_services:
  assumes "\<forall>s \<in> set ss. ''#'' @ fragmentIdToChain h (se_id s) = se_id s"
  shows "map (deserializeService \<circ> serializeService h) ss = ss"
  using assms by (induction ss) (simp_all add: deserialize_serialize_service)

lemma serialize_None:
  assumes "serializeAdditionalLightDidDetails h ka svc = None"
  shows "ka = None \<and> (svc = None \<or> svc = Some [])"
  using assms
  by (auto simp: serializeAdditionalLightDidDetails_def objectToSerialize_def Let_def
        split: if_splits option.splits)

lemma deserialize_details:
  assumes "base58Decode h d = Inr (0 # cbor_encode h (objectToSerialize h ka svc))"
      and "cbor_decode h (cbor_encode h (objectToSerialize h ka svc)) =
             Inr (objectToSerialize h ka svc)"
      and "svc \<noteq> Some []"
      and "\<forall>s \<in> set (case svc of None \<Rightarrow> [] | Some ss \<Rightarrow> ss).
             ''#'' @ fragmentIdToChain h (se_id s) = se_id s"
  shows "deserializeAdditionalLightDidDetails h d 1 = Inr (ka, svc)"
proof -
  have "map_option (map deserializeService) (ser_s (objectToSerialize h ka svc)) = svc"
  proof (cases svc)
    case None
    then show ?thesis by (simp add: objectToSerialize_def)
  next
    case (Some ss)
    with assms(3) have "ss \<noteq> []" by simp
    moreover from assms(4) Some
    have "map (deserializeService \<circ> serializeService h) ss = ss"
      by (simp add: deserialize_serialize_services)
    ultimately show ?thesis
      by (simp add: objectToSerialize_def Some)
  qed
  moreover have "ser_e (objectToSerialize h ka svc) = ka"
    by (simp add: objectToSerialize_def)
  ultimately show ?thesis
    by (simp add: deserializeAdditionalLightDidDetails_def assms(1,2))
qed

text \<open>
  The round trip, given the parts that the parser returns for the URI of the document.
\<close>

lemma round_trip_given_parts:
  assumes created: "createLightDidDocument h x = Inr doc"
      and key: "decodeMultikeyVerificationMethod h (in_authentication x) =
                  Inr (keyType, publicKey)"
      and addr: "getAddressByVerificationMethod h (in_authentication x) = Inr address"
      and services: "in_service x \<noteq> Some []"
      and fragments: "\<forall>s \<in> set (case in_service x of None \<Rightarrow> [] | Some ss \<Rightarrow> ss).
                        ''#'' @ fragmentIdToChain h (se_id s) = se_id s"
      and parsed: "parse h (doc_id doc) = Inr p"
      and parts: "p_type p = Light" "p_fragment p = None" "p_version p = 1"
                 "p_address p = address"
                 "p_authKeyTypeEncoding p = verificationKeyTypeToLightDidEncoding keyType"
                 "p_encodedDetails p =
                    serializeAdditionalLightDidDetails h (in_keyAgreement x) (in_service x)"
      and ss58: "decodeAddress h address = Inr publicKey"
      and multikey: "\<forall>vm. encodeVerificationMethodToMultiKey h (doc_id doc) ''#authentication''
                               (keyType, publicKey) = Inr vm \<longrightarrow>
                        decodeMultikeyVerificationMethod h vm = Inr (keyType, publicKey)
                        \<and> getAddressByVerificationMethod h vm = Inr address"
      and details: "\<forall>d. serializeAdditionalLightDidDetails h (in_keyAgreement x) (in_service x)
                             = Some d \<longrightarrow>
                       d \<noteq> []
                       \<and> base58Decode h d =
                           Inr (0 # cbor_encode h
                                      (objectToSerialize h (in_keyAgreement x) (in_service x)))
                       \<and> cbor_decode h
                           (cbor_encode h
                              (objectToSerialize h (in_keyAgreement x) (in_service x))) =
                           Inr (objectToSerialize h (in_keyAgreement x) (in_service x))"
  shows "parseDocumentFromLightDid h (doc_id doc) failIfFragmentPresent = Inr doc"
proof -
  let ?ser = "serializeAdditionalLightDidDetails h (in_keyAgreement x) (in_service x)"
  from create_success(2) [OF created key addr] obtain c where
    c: "verificationKeyTypeToLightDidEncoding keyType = Some c"
    by blast
  from create_success(4) [OF created key addr] obtain authVm where
    e: "encodeVerificationMethodToMultiKey h (doc_id doc) authenticationKeyId
          (keyType, publicKey) = Inr authVm"
    by blast
  from multikey e have
    k': "decodeMultikeyVerificationMethod h authVm = Inr (keyType, publicKey)"
    and a': "getAddressByVerificationMethod h authVm = Inr address"
    by (simp_all add: authenticationKeyId_def)
  have kt: "keyTypeOfEncoding (p_authKeyTypeEncoding p) = Some keyType"
    by (simp add: parts(5) c encoding_round_trip [OF c])
  have x: "x = \<lparr> in_authentication = in_authentication x,
                   in_keyAgreement = in_keyAgreement x, in_service = in_service x \<rparr>"
    by simp
  have same: "createLightDidDocument h
                \<lparr> in_authentication = authVm, in_keyAgreement = in_keyAgreement x,
                  in_service = in_service x \<rparr> = Inr doc"
    using create_same_key [OF k' key _ c, of "in_keyAgreement x" "in_service x"]
          a' addr created x
    by simp
  have fr: "\<not> (truthy (p_fragment p) \<and> failIfFragmentPresent)"
    by (simp add: parts(2) truthy_def)
  show ?thesis
  proof (cases ?ser)
    case None
    from serialize_None [OF None] services
    have n: "in_keyAgreement x = None" "in_service x = None"
      by auto
    have "\<not> truthy (p_encodedDetails p)"
      by (simp add: parts(6) None truthy_def)
    with same show ?thesis
      by (simp add: parseDocumentFromLightDid_def parsed parts(1,4) fr kt ss58 e n)
  next
    case (Some d)
    with details have d: "d \<noteq> []"
      and b: "base58Decode h d =
                Inr (0 # cbor_encode h (objectToSerialize h (in_keyAgreement x) (in_service x)))"
      and cb: "cbor_decode h
                 (cbor_encode h (objectToSerialize h (in_keyAgreement x) (in_service x))) =
               Inr (objectToSerialize h (in_keyAgreement x) (in_service x))"
      by simp_all
    have des: "deserializeAdditionalLightDidDetails h d 1 =
                 Inr (in_keyAgreement x, in_service x)"
      using deserialize_details [OF b cb services fragments] .
    have des': "deserializeAdditionalLightDidDetails h d (Suc 0) =
                  Inr (in_keyAgreement x, in_service x)"
      using des by simp
    have t: "truthy (Some d)"
      by (simp add: truthy_def d)
    show ?thesis
      by (simp add: parseDocumentFromLightDid_def parsed parts(1,3,4) fr kt ss58 e t
            parts(6) [unfolded Some] des' same)
  qed
qed

lemma hex_not_hash: "isHexDigit c \<Longrightarrow> c \<noteq> CHR ''#''"
  by (auto simp: isHexDigit_def)

lemma base58_not_hash: "isBase58Char c \<Longrightarrow> c \<noteq> CHR ''#''"
  by (auto simp: isBase58Char_def)

lemma splitFragment_none:
  assumes "CHR ''#'' \<notin> set s"
  shows "splitFragment s = (s, None)"
proof -
  have t: "takeWhile (\<lambda>c. c \<noteq> CHR ''#'') s = s"
    using assms by (auto simp: takeWhile_eq_all_conv)
  have d: "dropWhile (\<lambda>c. c \<noteq> CHR ''#'') s = []"
    using assms by (auto simp: dropWhile_eq_Nil_conv)
  show ?thesis
    by (simp add: splitFragment_def t d)
qed

text \<open>
  The parser of the grammar, applied to a URI that \<open>createLightDidDocument\<close>
  assembles from a key-type code of two hex digits, an identifier of the fixed length
  and, if any, non-empty base-58 details, returns these parts.
\<close>

lemma spec_parse_lightDidUri:
  assumes "length c = 2" and "list_all isHexDigit c"
      and "length address = n" and "list_all isBase58Char address"
      and "\<forall>d. details = Some d \<longrightarrow> d \<noteq> [] \<and> list_all isBase58Char d"
  shows "spec_parse n (lightDidUri (Some c) address details) =
           Inr \<lparr> p_did = lightDidUri (Some c) address details, p_address = address,
                 p_type = Light, p_version = 1, p_fragment = None,
                 p_authKeyTypeEncoding = Some c, p_encodedDetails = details \<rparr>"
proof -
  define data where "data = (case details of None \<Rightarrow> [] | Some d \<Rightarrow> '':'' @ d)"
  have uri: "lightDidUri (Some c) address details = ''did:kilt:light:'' @ c @ address @ data"
    using assms(5) by (auto simp: lightDidUri_def data_def split: option.splits)
  have dh: "CHR ''#'' \<notin> set data"
    using assms(5) by (auto simp: data_def list_all_iff dest: base58_not_hash split: option.splits)
  have nh: "CHR ''#'' \<notin> set (''did:kilt:light:'' @ c @ address @ data)"
    using assms(2,4) dh by (auto simp: list_all_iff dest: hex_not_hash base58_not_hash)
  have rest: "drop 15 (''did:kilt:light:'' @ c @ address @ data) = c @ address @ data"
    by simp
  have pre: "take 15 (''did:kilt:light:'' @ c @ address @ data) = ''did:kilt:light:''"
    by simp
  have enc: "take 2 (c @ address @ data) = c"
    using assms(1) by simp
  have adr: "take n (drop 2 (c @ address @ data)) = address"
    using assms(1,3) by simp
  have dat: "drop (n + 2) (c @ address @ data) = data"
    using assms(1,3) by simp
  have ok: "data = [] \<or> (take 1 data = '':'' \<and> 1 < length data
                           \<and> list_all isBase58Char (drop 1 data))"
    using assms(5) by (cases details) (auto simp: data_def)
  have det: "(if data = [] then None else Some (drop 1 data)) = details"
    by (cases details) (auto simp: data_def)
  have light: "parseLight n (''did:kilt:light:'' @ c @ address @ data) None =
           Inr \<lparr> p_did = ''did:kilt:light:'' @ c @ address @ data, p_address = address,
                 p_type = Light, p_version = 1, p_fragment = None,
                 p_authKeyTypeEncoding = Some c, p_encodedDetails = details \<rparr>"
    unfolding parseLight_def Let_def rest enc adr dat
    using ok det by (simp add: assms(1-4))
  have frag: "\<not> malformedFragment None"
    by (simp add: malformedFragment_def)
  show ?thesis
    unfolding uri spec_parse_def splitFragment_none [OF nh] Let_def fst_conv snd_conv
    by (simp only: frag pre light if_True if_False refl)
qed

lemma encoding_wellformed:
  assumes "verificationKeyTypeToLightDidEncoding keyType = Some c"
  shows "length c = 2 \<and> list_all isHexDigit c"
  using assms
  by (auto simp: verificationKeyTypeToLightDidEncoding_def isHexDigit_def split: if_splits)

text \<open>
  C1. Round trip. Let the creation input \<open>x\<close> be accepted (the document \<open>doc\<close> is
  created), let its service list be absent or non-empty, and let its service ids be
  fragments (\<open>#\<close> followed by what \<open>fragmentIdToChain\<close> keeps). Let the parser be the
  parser of the URI grammar of the specification, for identifiers of length \<open>n\<close>, and
  let the address of the authentication key be such an identifier (\<open>n\<close> base-58
  characters). Let the codecs invert each other where the codec uses them on this
  input: the address decodes to the public key, the verification method built from the
  key decodes to the key and has the same address, and the encoded details are a
  non-empty base-58 text that decodes (base58, then CBOR) to the serialized structure.
  Then parsing the URI of the document, as \<open>createLightDidDocument\<close> assembles it, gives
  back the document itself, with or without the check of a fragment.
\<close>

theorem light_did_round_trip:
  assumes created: "createLightDidDocument h x = Inr doc"
      and key: "decodeMultikeyVerificationMethod h (in_authentication x) =
                  Inr (keyType, publicKey)"
      and addr: "getAddressByVerificationMethod h (in_authentication x) = Inr address"
      and services: "in_service x \<noteq> Some []"
      and fragments: "\<forall>s \<in> set (case in_service x of None \<Rightarrow> [] | Some ss \<Rightarrow> ss).
                        ''#'' @ fragmentIdToChain h (se_id s) = se_id s"
      and grammar: "parse h = spec_parse n"
      and wellformed: "length address = n" "list_all isBase58Char address"
      and ss58: "decodeAddress h address = Inr publicKey"
      and multikey: "\<forall>vm. encodeVerificationMethodToMultiKey h (doc_id doc) ''#authentication''
                               (keyType, publicKey) = Inr vm \<longrightarrow>
                        decodeMultikeyVerificationMethod h vm = Inr (keyType, publicKey)
                        \<and> getAddressByVerificationMethod h vm = Inr address"
      and details: "\<forall>d. serializeAdditionalLightDidDetails h (in_keyAgreement x) (in_service x)
                             = Some d \<longrightarrow>
                       d \<noteq> [] \<and> list_all isBase58Char d
                       \<and> base58Decode h d =
                           Inr (0 # cbor_encode h
                                      (objectToSerialize h (in_keyAgreement x) (in_service x)))
                       \<and> cbor_decode h
                           (cbor_encode h
                              (objectToSerialize h (in_keyAgreement x) (in_service x))) =
                           Inr (objectToSerialize h (in_keyAgreement x) (in_service x))"
  shows "parseDocumentFromLightDid h (doc_id doc) failIfFragmentPresent = Inr doc"
proof -
  let ?ser = "serializeAdditionalLightDidDetails h (in_keyAgreement x) (in_service x)"
  from create_success(2) [OF created key addr] obtain c where
    c: "verificationKeyTypeToLightDidEncoding keyType = Some c"
    by blast
  from encoding_wellformed [OF c] have cw: "length c = 2" "list_all isHexDigit c"
    by simp_all
  have uri: "doc_id doc = lightDidUri (Some c) address ?ser"
    using create_success(3) [OF created key addr] by (simp add: c)
  from details have dw: "\<forall>d. ?ser = Some d \<longrightarrow> d \<noteq> [] \<and> list_all isBase58Char d"
    by blast
  let ?p = "\<lparr> p_did = lightDidUri (Some c) address ?ser, p_address = address,
              p_type = Light, p_version = 1, p_fragment = None,
              p_authKeyTypeEncoding = Some c, p_encodedDetails = ?ser \<rparr>"
  have parsed: "parse h (doc_id doc) = Inr ?p"
    unfolding grammar uri
    by (rule spec_parse_lightDidUri [OF cw wellformed dw])
  from details have details': "\<forall>d. ?ser = Some d \<longrightarrow>
                       d \<noteq> []
                       \<and> base58Decode h d =
                           Inr (0 # cbor_encode h
                                      (objectToSerialize h (in_keyAgreement x) (in_service x)))
                       \<and> cbor_decode h
                           (cbor_encode h
                              (objectToSerialize h (in_keyAgreement x) (in_service x))) =
                           Inr (objectToSerialize h (in_keyAgreement x) (in_service x))"
    by blast
  show ?thesis
    by (rule round_trip_given_parts
               [OF created key addr services fragments parsed _ _ _ _ _ _ ss58 multikey
                   details'])
       (simp_all add: c)
qed

lemma sample_create_complete:
  "createLightDidDocument sample_codec input_complete =
     Inr \<lparr> doc_id = ''did:kilt:light:014pAuth:z2Extras'',
           authentication = Some [''#authentication''],
           keyAgreement = Some [''#encryption''],
           assertionMethod = None, capabilityDelegation = None,
           verificationMethod =
             Some [\<lparr> vm_id = ''#authentication'', vm_type = ''Multikey'',
                      vm_controller = Some ''did:kilt:light:014pAuth:z2Extras'',
                      publicKeyMultibase = ''z6MkAuth'' \<rparr>,
                   \<lparr> vm_id = ''#encryption'', vm_type = ''Multikey'',
                      vm_controller = Some ''did:kilt:light:014pAuth:z2Extras'',
                      publicKeyMultibase = ''z6LSEnc'' \<rparr>],
           service = Some [sample_service] \<rparr>"
  by (simp add: input_complete_def codec_defs sample_defs Let_def)

lemma sample_serialize_complete:
  "serializeAdditionalLightDidDetails sample_codec (Some sample_encKey) (Some [sample_service])
     = Some ''z2Extras''"
  by (simp add: codec_defs sample_defs Let_def)

lemma sample_object_complete:
  "objectToSerialize sample_codec (Some sample_encKey) (Some [sample_service]) =
     sample_structure"
  by (simp add: codec_defs sample_defs)

theorem light_did_round_trip_witness:
  "createLightDidDocument sample_codec input_complete =
     Inr \<lparr> doc_id = ''did:kilt:light:014pAuth:z2Extras'',
           authentication = Some [''#authentication''],
           keyAgreement = Some [''#encryption''],
           assertionMethod = None, capabilityDelegation = None,
           verificationMethod =
             Some [\<lparr> vm_id = ''#authentication'', vm_type = ''Multikey'',
                      vm_controller = Some ''did:kilt:light:014pAuth:z2Extras'',
                      publicKeyMultibase = ''z6MkAuth'' \<rparr>,
                   \<lparr> vm_id = ''#encryption'', vm_type = ''Multikey'',
                      vm_controller = Some ''did:kilt:light:014pAuth:z2Extras'',
                      publicKeyMultibase = ''z6LSEnc'' \<rparr>],
           service = Some [sample_service] \<rparr>
   \<and> parseDocumentFromLightDid sample_codec ''did:kilt:light:014pAuth:z2Extras'' True =
       createLightDidDocument sample_codec input_complete"
proof -
  let ?h = sample_codec
  let ?x = input_complete
  let ?uri = "''did:kilt:light:014pAuth:z2Extras''"
  let ?doc = "\<lparr> doc_id = ?uri,
           authentication = Some [''#authentication''],
           keyAgreement = Some [''#encryption''],
           assertionMethod = None, capabilityDelegation = None,
           verificationMethod =
             Some [\<lparr> vm_id = ''#authentication'', vm_type = ''Multikey'',
                      vm_controller = Some ?uri,
                      publicKeyMultibase = ''z6MkAuth'' \<rparr>,
                   \<lparr> vm_id = ''#encryption'', vm_type = ''Multikey'',
                      vm_controller = Some ?uri,
                      publicKeyMultibase = ''z6LSEnc'' \<rparr>],
           service = Some [sample_service] \<rparr>"
  have created: "createLightDidDocument ?h ?x = Inr ?doc"
    by (rule sample_create_complete)
  have key: "decodeMultikeyVerificationMethod ?h (in_authentication ?x) =
               Inr (''ed25519'', [1, 2, 3])"
    by (simp add: input_complete_def sample_decode_auth)
  have addr: "getAddressByVerificationMethod ?h (in_authentication ?x) = Inr ''4pAuth''"
    by (simp add: input_complete_def sample_address_auth)
  have services: "in_service ?x \<noteq> Some []"
    by (simp add: input_complete_def)
  have fragments: "\<forall>s \<in> set (case in_service ?x of None \<Rightarrow> [] | Some ss \<Rightarrow> ss).
                     ''#'' @ fragmentIdToChain ?h (se_id s) = se_id s"
    by (simp add: input_complete_def sample_codec_def sample_helpers_def stripHash_def
          sample_service_def)
  have grammar: "parse ?h = spec_parse 6"
    by (simp add: sample_codec_def sample_helpers_def)
  have wellformed: "length ''4pAuth'' = 6" "list_all isBase58Char ''4pAuth''"
    by (simp_all add: isBase58Char_def)
  have ser: "serializeAdditionalLightDidDetails ?h (in_keyAgreement ?x) (in_service ?x) =
               Some ''z2Extras''"
    by (simp add: input_complete_def sample_serialize_complete)
  have ss58: "decodeAddress ?h ''4pAuth'' = Inr [1, 2, 3]"
    by (simp add: sample_codec_def sample_helpers_def book_decodeAddress_def sample_keys_def)
  have multikey: "\<forall>vm. encodeVerificationMethodToMultiKey ?h (doc_id ?doc) ''#authentication''
                            (''ed25519'', [1, 2, 3]) = Inr vm \<longrightarrow>
                        decodeMultikeyVerificationMethod ?h vm = Inr (''ed25519'', [1, 2, 3])
                        \<and> getAddressByVerificationMethod ?h vm = Inr ''4pAuth''"
    by (auto simp: sample_encode_auth)
       (simp_all add: sample_codec_def sample_helpers_def book_decodeMultikey_def
          book_address_def sample_keys_def)
  have obj: "objectToSerialize ?h (in_keyAgreement ?x) (in_service ?x) = sample_structure"
    by (simp add: input_complete_def sample_object_complete)
  have details: "\<forall>d. serializeAdditionalLightDidDetails ?h (in_keyAgreement ?x) (in_service ?x)
                         = Some d \<longrightarrow>
                       d \<noteq> [] \<and> list_all isBase58Char d
                       \<and> base58Decode ?h d =
                           Inr (0 # cbor_encode ?h
                                      (objectToSerialize ?h (in_keyAgreement ?x) (in_service ?x)))
                       \<and> cbor_decode ?h
                           (cbor_encode ?h
                              (objectToSerialize ?h (in_keyAgreement ?x) (in_service ?x))) =
                           Inr (objectToSerialize ?h (in_keyAgreement ?x) (in_service ?x))"
    unfolding ser obj
    by (simp add: sample_codec_def sample_helpers_def book_encode_def book_decode_def
          isBase58Char_def)
  have "parseDocumentFromLightDid ?h (doc_id ?doc) True = Inr ?doc"
    by (rule light_did_round_trip
               [OF created key addr services fragments grammar wellformed ss58 multikey
                   details])
  with created show ?thesis by simp
qed

lemma create_service:
  assumes "createLightDidDocument h x = Inr d"
  shows "service d = in_service x"
  using assms
  by (auto simp: createLightDidDocument_def addKeyAgreement_def Let_def
           split: sum.splits option.splits prod.splits)

text \<open>
  Whatever the helpers are: when the input has an empty service list, the created
  document has the empty list, and a document parsed from its URI has no service
  property, provided the parser returns the encoded details of the URI and they
  decode to the serialized structure.
\<close>

lemma empty_services_lost:
  assumes "createLightDidDocument h x = Inr doc"
      and "in_service x = Some []"
      and "parse h (doc_id doc) = Inr p"
      and "p_encodedDetails p =
             serializeAdditionalLightDidDetails h (in_keyAgreement x) (in_service x)"
      and "\<forall>d. p_encodedDetails p = Some d \<longrightarrow>
                 base58Decode h d =
                   Inr (0 # cbor_encode h
                              (objectToSerialize h (in_keyAgreement x) (in_service x)))
               \<and> cbor_decode h
                   (cbor_encode h (objectToSerialize h (in_keyAgreement x) (in_service x))) =
                   Inr (objectToSerialize h (in_keyAgreement x) (in_service x))"
      and "parseDocumentFromLightDid h (doc_id doc) b = Inr doc'"
  shows "service doc = Some [] \<and> service doc' = None"
proof -
  have one: "service doc = Some []"
    using create_service [OF assms(1)] assms(2) by simp
  have obj: "ser_s (objectToSerialize h (in_keyAgreement x) (in_service x)) = None"
    by (simp add: objectToSerialize_def assms(2))
  have des: "p_encodedDetails p = Some d \<Longrightarrow>
               deserializeAdditionalLightDidDetails h d (p_version p) = Inr (ka, svc) \<Longrightarrow>
               svc = None" for d ka svc
    using assms(5) obj
    by (auto simp: deserializeAdditionalLightDidDetails_def split: if_splits)
  from assms(6) have "\<exists>auth ka svc.
          createLightDidDocument h
            \<lparr> in_authentication = auth, in_keyAgreement = ka, in_service = svc \<rparr> = Inr doc'
          \<and> (svc = None
               \<or> (\<exists>d. p_encodedDetails p = Some d
                      \<and> deserializeAdditionalLightDidDetails h d (p_version p) =
                            Inr (ka, svc)))"
    by (auto simp: parseDocumentFromLightDid_def assms(3)
             split: sum.splits option.splits if_splits prod.splits)
  then obtain auth ka svc where
    c: "createLightDidDocument h
          \<lparr> in_authentication = auth, in_keyAgreement = ka, in_service = svc \<rparr> = Inr doc'"
    and "svc = None
               \<or> (\<exists>d. p_encodedDetails p = Some d
                      \<and> deserializeAdditionalLightDidDetails h d (p_version p) =
                            Inr (ka, svc))"
    by blast
  with des have s: "svc = None" by blast
  from create_service [OF c] s have "service doc' = None" by simp
  with one show ?thesis by simp
qed

text \<open>
  The sample helpers show it: an empty service list is accepted and kept in the created
  document, but it is not serialized into the URI, and the document parsed from the URI
  has no service property.
\<close>

theorem light_did_round_trip_counterexample:
  "createLightDidDocument sample_codec input_emptyServices =
     Inr \<lparr> doc_id = ''did:kilt:light:014pAuth'',
           authentication = Some [''#authentication''],
           keyAgreement = None, assertionMethod = None, capabilityDelegation = None,
           verificationMethod =
             Some [\<lparr> vm_id = ''#authentication'', vm_type = ''Multikey'',
                      vm_controller = Some ''did:kilt:light:014pAuth'',
                      publicKeyMultibase = ''z6MkAuth'' \<rparr>],
           service = Some [] \<rparr>
   \<and> parseDocumentFromLightDid sample_codec ''did:kilt:light:014pAuth'' True =
     Inr \<lparr> doc_id = ''did:kilt:light:014pAuth'',
           authentication = Some [''#authentication''],
           keyAgreement = None, assertionMethod = None, capabilityDelegation = None,
           verificationMethod =
             Some [\<lparr> vm_id = ''#authentication'', vm_type = ''Multikey'',
                      vm_controller = Some ''did:kilt:light:014pAuth'',
                      publicKeyMultibase = ''z6MkAuth'' \<rparr>],
           service = None \<rparr>
   \<and> parseDocumentFromLightDid sample_codec ''did:kilt:light:014pAuth'' True \<noteq>
       createLightDidDocument sample_codec input_emptyServices"
proof -
  have c: "createLightDidDocument sample_codec input_emptyServices =
     Inr \<lparr> doc_id = ''did:kilt:light:014pAuth'',
           authentication = Some [''#authentication''],
           keyAgreement = None, assertionMethod = None, capabilityDelegation = None,
           verificationMethod =
             Some [\<lparr> vm_id = ''#authentication'', vm_type = ''Multikey'',
                      vm_controller = Some ''did:kilt:light:014pAuth'',
                      publicKeyMultibase = ''z6MkAuth'' \<rparr>],
           service = Some [] \<rparr>"
    by (simp add: input_emptyServices_def codec_defs sample_defs Let_def)
  show ?thesis
    unfolding c sample_parseDocument_light by simp
qed


end
